theory Spec2Isabelle
  imports Complex_Main
begin

section \<open>Values, arrays and errors\<close>

text \<open>
  A cell of a NumPy float array is either NaN or a number. Arithmetic and comparisons
  follow NumPy: NaN is absorbing for \<open>abs\<close> and \<open>+\<close>, and \<open>NaN == 0\<close> is false.
\<close>

datatype flt = NaN | Val real

fun isnan :: "flt \<Rightarrow> bool" where
  "isnan NaN = True"
| "isnan (Val x) = False"

fun num_abs :: "flt \<Rightarrow> flt" where
  "num_abs NaN = NaN"
| "num_abs (Val x) = Val \<bar>x\<bar>"

fun num_add :: "flt \<Rightarrow> flt \<Rightarrow> flt" where
  "num_add (Val x) (Val y) = Val (x + y)"
| "num_add a b = NaN"

fun num_eq0 :: "flt \<Rightarrow> bool" where
  "num_eq0 NaN = False"
| "num_eq0 (Val x) = (x = 0)"

text \<open>Every exception the modelled code can raise is a value.\<close>

datatype error = IndexError | ValueError | TypeError | KeyError | AttributeError
  | OutOfDomain | ExternalFailure

definition and_then :: "error + 'a \<Rightarrow> ('a \<Rightarrow> error + 'b) \<Rightarrow> error + 'b" where
  "and_then m f = (case m of Inl e \<Rightarrow> Inl e | Inr x \<Rightarrow> f x)"

text \<open>Indexing a sequence at a non-negative position; Python raises out of range.\<close>

definition nth_err :: "'a list \<Rightarrow> nat \<Rightarrow> error + 'a" where
  "nth_err xs i = (if i < length xs then Inr (xs ! i) else Inl IndexError)"

text \<open>\<open>xs[0]\<close> and \<open>xs[-1]\<close>.\<close>

definition first_err :: "'a list \<Rightarrow> error + 'a" where
  "first_err xs = (case xs of [] \<Rightarrow> Inl IndexError | x # _ \<Rightarrow> Inr x)"

definition last_err :: "'a list \<Rightarrow> error + 'a" where
  "last_err xs = (if xs = [] then Inl IndexError else Inr (last xs))"

text \<open>\<open>np.diff(xs)[0]\<close>: the first difference, which needs two entries.\<close>

definition np_diff0 :: "real list \<Rightarrow> error + real" where
  "np_diff0 xs = (case xs of a # b # _ \<Rightarrow> Inr (b - a) | _ \<Rightarrow> Inl IndexError)"

text \<open>
  A three-dimensional array indexed (time, lat, lon): its shape and its cells in
  row-major order.
\<close>

record 'a ndarray =
  shp :: "nat \<times> nat \<times> nat"
  vals :: "'a list"

text \<open>A two-dimensional (lat, lon) array: its shape and its cells in row-major order.\<close>

type_synonym 'a array2 = "(nat \<times> nat) \<times> 'a list"

section \<open>Datasets and grids\<close>

record DataArray =
  da_values :: "flt ndarray"
  da_dims :: "string list"
  da_attrs :: "(string \<times> string) list"

record Dataset =
  ds_coords :: "(string \<times> real list) list"
  data_vars :: "(string \<times> DataArray) list"
  ds_attrs :: "(string \<times> string) list"

text \<open>
  Modelled from the spec: the class \<open>SurfaceGrid\<close> of \<open>pyplume.dataloaders\<close> is not part
  of the sources. The record holds what the gap-filling code reads from it: the wrapped
  dataset, the coordinate axes (\<open>get_coords()\<close>, \<open>lats\<close>, \<open>lons\<close>), the time axis of the
  flat field set (\<open>fieldset_flat.U.grid.time\<close>) and the two point lookups. A lookup is a
  function that may fail; by the spec's contract for \<open>value_at\<close> it fails with
  \<open>OutOfDomain\<close> when the query lies outside the grid's span on some axis.
\<close>

record SurfaceGrid =
  ds :: Dataset
  get_coords :: "real list \<times> real list \<times> real list"
  lats :: "real list"
  lons :: "real list"
  grid_time :: "real list"
  get_fs_vector :: "real \<Rightarrow> real \<Rightarrow> real \<Rightarrow> error + flt \<times> flt"
  get_closest_current :: "nat \<Rightarrow> real \<Rightarrow> real \<Rightarrow> error + flt \<times> flt"

section \<open>Interpolating one cell\<close>

text \<open>
  \<open>get_interped(i, target, ref, invalid_where)\<close>: the value the reference offers for the
  \<open>i\<close>-th invalid position. There is no exception handler: a failing index or lookup
  propagates.
\<close>

definition get_interped ::
  "nat \<Rightarrow> SurfaceGrid \<Rightarrow> SurfaceGrid \<Rightarrow> nat list \<times> nat list \<times> nat list \<Rightarrow> error + flt \<times> flt" where
  "get_interped i target ref invalid_where =
     and_then (np_diff0 (grid_time ref)) (\<lambda>time_diff.
     and_then (nth_err (fst invalid_where) i) (\<lambda>t.
     and_then (nth_err (fst (snd invalid_where)) i) (\<lambda>yi.
     and_then (nth_err (lats target) yi) (\<lambda>lat.
     and_then (nth_err (snd (snd invalid_where)) i) (\<lambda>xi.
     and_then (nth_err (lons target) xi) (\<lambda>lon.
     and_then (get_fs_vector ref (real t * time_diff) lat lon) (\<lambda>(current_u, current_v).
     let current_abs = num_add (num_abs current_u) (num_abs current_v) in
     and_then (get_closest_current ref t lat lon) (\<lambda>closest.
     if isnan (fst closest) \<or> num_eq0 current_abs then Inr (NaN, NaN)
     else Inr (current_u, current_v)))))))))"

section \<open>Masks and index arrays\<close>

text \<open>
  Modelled from the spec: \<open>utils.generate_mask_invalid\<close> is not part of the sources. Both
  call sites pass it one array (the U component), so the mask is taken cell by cell from
  that array, with the same shape; the rule \<open>p\<close> applied to a cell is a parameter.
  \<open>cell_invalid\<close> is the spec's rule (NaN, or magnitude exactly zero) read on the one
  component that is passed.
\<close>

definition generate_mask_invalid :: "(flt \<Rightarrow> bool) \<Rightarrow> flt ndarray \<Rightarrow> bool ndarray" where
  "generate_mask_invalid p a = \<lparr>shp = shp a, vals = map p (vals a)\<rparr>"

definition cell_invalid :: "flt \<Rightarrow> bool" where
  "cell_invalid x = (isnan x \<or> num_eq0 (num_abs x))"

text \<open>\<open>mask.sum()\<close>: the number of marked cells.\<close>

definition np_sum :: "bool ndarray \<Rightarrow> nat" where
  "np_sum m = length (filter (\<lambda>b. b) (vals m))"

text \<open>
  \<open>np.where(mask)\<close>: the (time, lat, lon) indices of the marked cells, as three index
  arrays, in row-major order.
\<close>

definition unravel :: "nat \<times> nat \<times> nat \<Rightarrow> nat \<Rightarrow> nat \<times> nat \<times> nat" where
  "unravel s k = (case s of (nt, ny, nx) \<Rightarrow> (k div (ny * nx), (k div nx) mod ny, k mod nx))"

definition marked :: "bool ndarray \<Rightarrow> nat list" where
  "marked m = filter (\<lambda>k. vals m ! k) [0..<length (vals m)]"

definition np_where :: "bool ndarray \<Rightarrow> nat list \<times> nat list \<times> nat list" where
  "np_where m =
     (map (\<lambda>k. fst (unravel (shp m) k)) (marked m),
      map (\<lambda>k. fst (snd (unravel (shp m) k))) (marked m),
      map (\<lambda>k. snd (snd (unravel (shp m) k))) (marked m))"

text \<open>
  \<open>a[index_arrays] = arr\<close>: the \<open>k\<close>-th value goes to the cell named by the \<open>k\<close>-th
  index triple; an index outside the shape of \<open>a\<close> raises. (At both call sites \<open>arr\<close> has
  one value per index triple.)
\<close>

definition ravel :: "nat \<times> nat \<times> nat \<Rightarrow> nat \<times> nat \<times> nat \<Rightarrow> error + nat" where
  "ravel s pos =
     (case s of (nt, ny, nx) \<Rightarrow> case pos of (t, i, j) \<Rightarrow>
        if t < nt \<and> i < ny \<and> j < nx then Inr ((t * ny + i) * nx + j) else Inl IndexError)"

fun ravel_all :: "nat \<times> nat \<times> nat \<Rightarrow> (nat \<times> nat \<times> nat) list \<Rightarrow> error + nat list" where
  "ravel_all s [] = Inr []"
| "ravel_all s (pos # rest) =
     and_then (ravel s pos) (\<lambda>k. and_then (ravel_all s rest) (\<lambda>ks. Inr (k # ks)))"

fun put_all :: "'a list \<Rightarrow> (nat \<times> 'a) list \<Rightarrow> 'a list" where
  "put_all xs [] = xs"
| "put_all xs ((k, x) # rest) = put_all (xs[k := x]) rest"

definition index_put ::
  "'a ndarray \<Rightarrow> nat list \<times> nat list \<times> nat list \<Rightarrow> 'a list \<Rightarrow> error + 'a ndarray" where
  "index_put a pos arr =
     (case pos of (ts, ys, xs) \<Rightarrow>
        if length arr \<noteq> length ts then Inl ValueError
        else and_then (ravel_all (shp a) (zip ts (zip ys xs)))
               (\<lambda>ks. Inr (a\<lparr>vals := put_all (vals a) (zip ks arr)\<rparr>)))"

section \<open>InterpolationStep\<close>

text \<open>
  A configured reference is a grid, a locator string, or some other value. Loading a
  locator is the work of external collaborators, which are parameters of the model.
\<close>

datatype reference = RefGrid SurfaceGrid | RefStr string | RefOther

record externals =
  load_source :: "string \<Rightarrow> error + Dataset"
  slice_dataset ::
    "Dataset \<Rightarrow> real \<times> real \<Rightarrow> real \<times> real \<Rightarrow> real \<times> real \<Rightarrow> error + Dataset"
  SurfaceGrid_init :: "Dataset \<Rightarrow> error + SurfaceGrid"
  from_url_or_path :: "string \<Rightarrow> error + SurfaceGrid"
  smoothn :: "flt array2 \<Rightarrow> flt array2 \<Rightarrow> error + flt array2 \<times> flt array2"

text \<open>\<open>InterpolationStep.__init__\<close>: \<open>None\<close> stands for no references.\<close>

definition InterpolationStep_init :: "reference list option \<Rightarrow> reference list" where
  "InterpolationStep_init references = (case references of None \<Rightarrow> [] | Some rs \<Rightarrow> rs)"

definition span_of :: "real list \<Rightarrow> error + real \<times> real" where
  "span_of xs = and_then (first_err xs) (\<lambda>a. and_then (last_err xs) (\<lambda>b. Inr (a, b)))"

text \<open>The first loop of \<open>process\<close>: resolve every configured reference to a grid.\<close>

fun load_references ::
  "externals \<Rightarrow> SurfaceGrid \<Rightarrow> reference list \<Rightarrow> error + SurfaceGrid list" where
  "load_references ext target [] = Inr []"
| "load_references ext target (r # rest) =
     and_then
       (case r of
          RefGrid g \<Rightarrow> Inr g
        | RefStr s \<Rightarrow>
            and_then (load_source ext s) (\<lambda>raw.
            case get_coords target of (tms, las, los) \<Rightarrow>
            and_then (span_of tms) (\<lambda>time_range.
            and_then (span_of las) (\<lambda>lat_range.
            and_then (span_of los) (\<lambda>lon_range.
            and_then (slice_dataset ext raw time_range lat_range lon_range)
              (SurfaceGrid_init ext)))))
        | RefOther \<Rightarrow> Inl TypeError)
       (\<lambda>g. and_then (load_references ext target rest) (\<lambda>gs. Inr (g # gs)))"

text \<open>
  \<open>do_validation\<close>: every reference must enclose the target on the three axes; the first
  that does not raises \<open>ValueError\<close>.
\<close>

definition ref_inbounds :: "SurfaceGrid \<Rightarrow> real \<times> real \<Rightarrow> real \<times> real \<Rightarrow> real list \<Rightarrow> error + bool" where
  "ref_inbounds ref targ_min targ_max targ_times =
     (case get_coords ref of (ref_times, ref_lats, ref_lons) \<Rightarrow>
      and_then (first_err ref_lats) (\<lambda>rl0.
      and_then (if rl0 \<le> fst targ_min
                then and_then (last_err ref_lats) (\<lambda>rl1. Inr (rl1 \<ge> fst targ_max))
                else Inr False) (\<lambda>lat_inbounds.
      and_then (first_err ref_lons) (\<lambda>ro0.
      and_then (if ro0 \<le> snd targ_min
                then and_then (last_err ref_lons) (\<lambda>ro1. Inr (ro1 \<ge> snd targ_max))
                else Inr False) (\<lambda>lon_inbounds.
      and_then (first_err ref_times) (\<lambda>rt0.
      and_then (first_err targ_times) (\<lambda>tt0.
      and_then (if rt0 \<le> tt0
                then and_then (last_err ref_times) (\<lambda>rt1.
                     and_then (last_err targ_times) (\<lambda>tt1. Inr (rt1 \<ge> tt1)))
                else Inr False) (\<lambda>time_inbounds.
      Inr (lat_inbounds \<and> lon_inbounds \<and> time_inbounds)))))))))"

fun validate_refs ::
  "SurfaceGrid list \<Rightarrow> real \<times> real \<Rightarrow> real \<times> real \<Rightarrow> real list \<Rightarrow> error + unit" where
  "validate_refs [] targ_min targ_max targ_times = Inr ()"
| "validate_refs (ref # rest) targ_min targ_max targ_times =
     and_then (ref_inbounds ref targ_min targ_max targ_times) (\<lambda>ok.
       if \<not> ok then Inl ValueError
       else validate_refs rest targ_min targ_max targ_times)"

definition do_validation :: "SurfaceGrid \<Rightarrow> SurfaceGrid list \<Rightarrow> error + unit" where
  "do_validation target loaded_references =
     (case get_coords target of (targ_times, targ_lats, targ_lons) \<Rightarrow>
      and_then (first_err targ_lats) (\<lambda>la0.
      and_then (first_err targ_lons) (\<lambda>lo0.
      and_then (last_err targ_lats) (\<lambda>la1.
      and_then (last_err targ_lons) (\<lambda>lo1.
      validate_refs loaded_references (la0, lo0) (la1, lo1) targ_times)))))"

text \<open>The inner loop: one call of \<open>get_interped\<close> per invalid position, in order.\<close>

fun interp_cells ::
  "SurfaceGrid \<Rightarrow> SurfaceGrid \<Rightarrow> nat list \<times> nat list \<times> nat list \<Rightarrow> nat list
     \<Rightarrow> error + flt list \<times> flt list" where
  "interp_cells target ref pos [] = Inr ([], [])"
| "interp_cells target ref pos (i # rest) =
     and_then (get_interped i target ref pos) (\<lambda>(c_u, c_v).
     and_then (interp_cells target ref pos rest) (\<lambda>(arr_u, arr_v).
     Inr (c_u # arr_u, c_v # arr_v)))"

text \<open>
  One iteration of the loop over the loaded references. The state is the pair of arrays
  being filled and the current invalid mask.
\<close>

type_synonym fill_state = "flt ndarray \<times> flt ndarray \<times> bool ndarray"

definition interp_pass ::
  "(flt \<Rightarrow> bool) \<Rightarrow> SurfaceGrid \<Rightarrow> SurfaceGrid \<Rightarrow> fill_state \<Rightarrow> error + fill_state" where
  "interp_pass p target ref s =
     (case s of (target_interped_u, target_interped_v, invalid_interped) \<Rightarrow>
      let invalid_pos_new = np_where invalid_interped;
          num_invalid_new = np_sum invalid_interped in
      and_then (interp_cells target ref invalid_pos_new [0..<num_invalid_new]) (\<lambda>(arr_u, arr_v).
      and_then (index_put target_interped_u invalid_pos_new arr_u) (\<lambda>u'.
      and_then (index_put target_interped_v invalid_pos_new arr_v) (\<lambda>v'.
      Inr (u', v', generate_mask_invalid p u')))))"

text \<open>
  The loop, together with what it logs after each reference: the number of cells that
  are still invalid.
\<close>

fun interp_refs ::
  "(flt \<Rightarrow> bool) \<Rightarrow> SurfaceGrid \<Rightarrow> SurfaceGrid list \<Rightarrow> fill_state
     \<Rightarrow> error + fill_state \<times> nat list" where
  "interp_refs p target [] s = Inr (s, [])"
| "interp_refs p target (ref # rest) s =
     and_then (interp_pass p target ref s) (\<lambda>s'.
     and_then (interp_refs p target rest s') (\<lambda>(s'', logged).
     Inr (s'', np_sum (snd (snd s')) # logged)))"

text \<open>
  \<open>InterpolationStep.process\<close>, with its log of invalid counts: the count on the target
  data first, then one count per reference.
\<close>

definition process_logged ::
  "externals \<Rightarrow> (flt \<Rightarrow> bool) \<Rightarrow> reference list \<Rightarrow> flt ndarray \<Rightarrow> flt ndarray \<Rightarrow> Dataset
     \<Rightarrow> error + (flt ndarray \<times> flt ndarray) \<times> nat list" where
  "process_logged ext p references u v target_ds =
     and_then (SurfaceGrid_init ext target_ds) (\<lambda>target.
     and_then (load_references ext target references) (\<lambda>loaded_references.
     and_then (do_validation target loaded_references) (\<lambda>_.
     let invalid = generate_mask_invalid p u;
         num_invalid = np_sum invalid in
     and_then (interp_refs p target loaded_references (u, v, invalid)) (\<lambda>(s, logged).
     Inr ((fst s, fst (snd s)), num_invalid # logged)))))"

definition InterpolationStep_process ::
  "externals \<Rightarrow> (flt \<Rightarrow> bool) \<Rightarrow> reference list \<Rightarrow> flt ndarray \<Rightarrow> flt ndarray \<Rightarrow> Dataset
     \<Rightarrow> error + flt ndarray \<times> flt ndarray" where
  "InterpolationStep_process ext p references u v target_ds =
     and_then (process_logged ext p references u v target_ds) (\<lambda>(r, logged). Inr r)"

section \<open>SmoothnStep\<close>

text \<open>
  \<open>SmoothnStep.__init__\<close>: the mask is kept as a grid; a dataset is wrapped and a locator
  is loaded, both by external code.
\<close>

datatype mask_arg = MaskGrid SurfaceGrid | MaskDataset Dataset | MaskLocator string

definition SmoothnStep_init :: "externals \<Rightarrow> mask_arg option \<Rightarrow> error + SurfaceGrid option" where
  "SmoothnStep_init ext msk =
     (case msk of
        None \<Rightarrow> Inr None
      | Some (MaskGrid g) \<Rightarrow> Inr (Some g)
      | Some (MaskDataset d) \<Rightarrow> and_then (SurfaceGrid_init ext d) (\<lambda>g. Inr (Some g))
      | Some (MaskLocator s) \<Rightarrow> and_then (from_url_or_path ext s) (\<lambda>g. Inr (Some g)))"

definition SmoothnStep_do_validation :: "SurfaceGrid option \<Rightarrow> SurfaceGrid \<Rightarrow> error + unit" where
  "SmoothnStep_do_validation msk target =
     (case msk of
        None \<Rightarrow> Inr ()
      | Some m \<Rightarrow>
          (case get_coords target of (targ_times, targ_lats, targ_lons) \<Rightarrow>
           and_then (first_err targ_lats) (\<lambda>la0.
           and_then (first_err targ_lons) (\<lambda>lo0.
           and_then (last_err targ_lats) (\<lambda>la1.
           and_then (last_err targ_lons) (\<lambda>lo1.
           case get_coords m of (mask_times, mask_lats, mask_lons) \<Rightarrow>
           if \<not> (length targ_lats = length mask_lats \<and> length targ_lons = length mask_lons)
           then Inl ValueError
           else
           and_then (first_err mask_lats) (\<lambda>ml0.
           and_then (if ml0 = la0
                     then and_then (last_err mask_lats) (\<lambda>ml1. Inr (ml1 = la1))
                     else Inr False) (\<lambda>lat_inbounds.
           and_then (first_err mask_lons) (\<lambda>mo0.
           and_then (if mo0 = lo0
                     then and_then (last_err mask_lons) (\<lambda>mo1. Inr (mo1 = lo1))
                     else Inr False) (\<lambda>lon_inbounds.
           if \<not> (lat_inbounds \<and> lon_inbounds) then Inl ValueError else Inr ()))))))))))"

text \<open>\<open>a.tolist()[i]\<close>: the (lat, lon) slab of time step \<open>i\<close>.\<close>

definition slab :: "'a ndarray \<Rightarrow> nat \<Rightarrow> error + 'a array2" where
  "slab a i =
     (case shp a of (nt, ny, nx) \<Rightarrow>
        if i < nt then Inr ((ny, nx), take (ny * nx) (drop (i * (ny * nx)) (vals a)))
        else Inl IndexError)"

text \<open>
  \<open>a[i] = b\<close>: the two-dimensional \<open>b\<close> is broadcast to the slab's shape (an axis of
  length one is repeated); any other shape raises.
\<close>

definition broadcast2 :: "nat \<times> nat \<Rightarrow> 'a array2 \<Rightarrow> error + 'a list" where
  "broadcast2 s b =
     (case s of (ny, nx) \<Rightarrow> case b of ((r, c), bs) \<Rightarrow>
        if (r = ny \<or> r = 1) \<and> (c = nx \<or> c = 1) \<and> length bs = r * c
        then Inr (map (\<lambda>k. bs ! ((if r = 1 then 0 else k div nx) * c
                                  + (if c = 1 then 0 else k mod nx))) [0..<ny * nx])
        else Inl ValueError)"

definition set_slab :: "'a ndarray \<Rightarrow> nat \<Rightarrow> 'a array2 \<Rightarrow> error + 'a ndarray" where
  "set_slab a i b =
     (case shp a of (nt, ny, nx) \<Rightarrow>
        if i < nt
        then and_then (broadcast2 (ny, nx) b) (\<lambda>bs.
               Inr (a\<lparr>vals := take (i * (ny * nx)) (vals a) @ bs
                                  @ drop (Suc i * (ny * nx)) (vals a)\<rparr>))
        else Inl IndexError)"

text \<open>
  The loop over the time steps. The inputs of the engine come from the lists taken
  before the loop, so from the arrays as they were passed in (\<open>u\<close>, \<open>v\<close>).
\<close>

fun smooth_fields ::
  "externals \<Rightarrow> flt ndarray \<Rightarrow> flt ndarray \<Rightarrow> nat list \<Rightarrow> flt ndarray \<times> flt ndarray
     \<Rightarrow> error + flt ndarray \<times> flt ndarray" where
  "smooth_fields ext u v [] s = Inr s"
| "smooth_fields ext u v (i # rest) s =
     and_then (slab u i) (\<lambda>u_mat.
     and_then (slab v i) (\<lambda>v_mat.
     and_then (smoothn ext u_mat v_mat) (\<lambda>(u_array, v_array).
     and_then (set_slab (fst s) i u_array) (\<lambda>su.
     and_then (set_slab (snd s) i v_array) (\<lambda>sv.
     smooth_fields ext u v rest (su, sv))))))"

text \<open>\<open>np.tile(m, (n, 1, 1))\<close> and \<open>a[mask] = x\<close> for a boolean mask of the shape of \<open>a\<close>.\<close>

definition np_tile :: "'a array2 \<Rightarrow> nat \<Rightarrow> 'a ndarray" where
  "np_tile m n = \<lparr>shp = (n, fst (fst m), snd (fst m)), vals = concat (replicate n (snd m))\<rparr>"

definition mask_put :: "'a ndarray \<Rightarrow> bool ndarray \<Rightarrow> 'a \<Rightarrow> error + 'a ndarray" where
  "mask_put a m x =
     (if shp m = shp a \<and> length (vals m) = length (vals a)
      then Inr (a\<lparr>vals := map (\<lambda>(b, c). if b then x else c) (zip (vals m) (vals a))\<rparr>)
      else Inl IndexError)"

definition ds_var :: "Dataset \<Rightarrow> string \<Rightarrow> error + DataArray" where
  "ds_var d k = (case map_of (data_vars d) k of None \<Rightarrow> Inl KeyError | Some x \<Rightarrow> Inr x)"

definition ds_coord_size :: "Dataset \<Rightarrow> string \<Rightarrow> error + nat" where
  "ds_coord_size d k =
     (case map_of (ds_coords d) k of None \<Rightarrow> Inl KeyError | Some xs \<Rightarrow> Inr (length xs))"

text \<open>
  \<open>SmoothnStep.process\<close>. \<open>utils.generate_mask_no_data\<close> is not part of the sources
  and the spec does not say how the mask is read off the mask grid, so it is a
  parameter: a function from the mask grid's U array to a (lat, lon) boolean array.
\<close>

definition SmoothnStep_process ::
  "externals \<Rightarrow> (flt ndarray \<Rightarrow> bool array2) \<Rightarrow> SurfaceGrid option
     \<Rightarrow> flt ndarray \<Rightarrow> flt ndarray \<Rightarrow> Dataset \<Rightarrow> error + flt ndarray \<times> flt ndarray" where
  "SmoothnStep_process ext generate_mask_no_data msk u v target_ds =
     and_then (SurfaceGrid_init ext target_ds) (\<lambda>target.
     and_then (SmoothnStep_do_validation msk target) (\<lambda>_.
     and_then (smooth_fields ext u v [0..<fst (shp u)] (u, v)) (\<lambda>(target_smoothed_u, target_smoothed_v).
     case msk of
       None \<Rightarrow> Inr (target_smoothed_u, target_smoothed_v)
     | Some m \<Rightarrow>
         and_then (ds_var (ds m) ''U'') (\<lambda>mask_u.
         and_then (ds_coord_size (ds target) ''time'') (\<lambda>n.
         let no_data = np_tile (generate_mask_no_data (da_values mask_u)) n in
         and_then (mask_put target_smoothed_u no_data NaN) (\<lambda>su.
         and_then (mask_put target_smoothed_v no_data NaN) (\<lambda>sv.
         Inr (su, sv))))))))"

section \<open>Gapfiller\<close>

text \<open>A step is anything with the capability \<open>process(u, v, target)\<close>.\<close>

type_synonym gapfill_step = "flt ndarray \<Rightarrow> flt ndarray \<Rightarrow> Dataset \<Rightarrow> error + flt ndarray \<times> flt ndarray"

fun run_steps ::
  "gapfill_step list \<Rightarrow> Dataset \<Rightarrow> flt ndarray \<times> flt ndarray \<Rightarrow> error + flt ndarray \<times> flt ndarray" where
  "run_steps [] target uv = Inr uv"
| "run_steps (step # rest) target uv =
     and_then (step (fst uv) (snd uv) target) (run_steps rest target)"

text \<open>
  Modelled from the spec: \<open>utils.conv_to_dataarray\<close> is not part of the sources. It puts
  the coordinates, dimensions and metadata of the original variable back on the new
  values, which therefore must have the original's shape.
\<close>

definition conv_to_dataarray :: "flt ndarray \<Rightarrow> DataArray \<Rightarrow> error + DataArray" where
  "conv_to_dataarray arr darr_ref =
     (if shp arr = shp (da_values darr_ref) then Inr (darr_ref\<lparr>da_values := arr\<rparr>)
      else Inl ValueError)"

definition drop_vars :: "string list \<Rightarrow> Dataset \<Rightarrow> Dataset" where
  "drop_vars names d = d\<lparr>data_vars := filter (\<lambda>(k, x). k \<notin> set names) (data_vars d)\<rparr>"

definition assign :: "string \<Rightarrow> DataArray \<Rightarrow> Dataset \<Rightarrow> Dataset" where
  "assign k x d =
     d\<lparr>data_vars :=
         (if k \<in> fst ` set (data_vars d)
          then map (\<lambda>(k', x'). if k' = k then (k, x) else (k', x')) (data_vars d)
          else data_vars d @ [(k, x)])\<rparr>"

definition execute :: "gapfill_step list \<Rightarrow> Dataset \<Rightarrow> error + Dataset" where
  "execute steps target =
     and_then (ds_var target ''U'') (\<lambda>target_u.
     and_then (ds_var target ''V'') (\<lambda>target_v.
     and_then (run_steps steps target (da_values target_u, da_values target_v)) (\<lambda>(u, v).
     and_then (conv_to_dataarray u target_u) (\<lambda>darr_u.
     and_then (conv_to_dataarray v target_v) (\<lambda>darr_v.
     Inr (assign ''V'' darr_v (assign ''U'' darr_u (drop_vars [''U'', ''V''] target))))))))"

text \<open>The size of every named dimension of a dataset, read off its variables and axes.\<close>

definition da_sizes :: "DataArray \<Rightarrow> (string \<times> nat) list" where
  "da_sizes x =
     (case shp (da_values x) of (nt, ny, nx) \<Rightarrow> zip (da_dims x) [nt, ny, nx])"

definition ds_sizes :: "Dataset \<Rightarrow> (string \<times> nat) set" where
  "ds_sizes d =
     set (concat (map (\<lambda>(k, x). da_sizes x) (data_vars d)))
       \<union> set (map (\<lambda>(k, xs). (k, length xs)) (ds_coords d))"

section \<open>Steps from a configuration\<close>

text \<open>The step objects of the module, and the \<open>process\<close> each one carries out.\<close>

datatype step = InterpolationStep "reference list" | SmoothnStep "SurfaceGrid option"

definition step_process ::
  "externals \<Rightarrow> (flt \<Rightarrow> bool) \<Rightarrow> (flt ndarray \<Rightarrow> bool array2) \<Rightarrow> step \<Rightarrow> gapfill_step" where
  "step_process ext p generate_mask_no_data st =
     (case st of
        InterpolationStep references \<Rightarrow> InterpolationStep_process ext p references
      | SmoothnStep msk \<Rightarrow> SmoothnStep_process ext generate_mask_no_data msk)"

text \<open>
  The keyword arguments of a configuration record: the value given for \<open>references\<close>
  (if the key is present), the value given for \<open>mask\<close>, and the other keys.
\<close>

record kwargs =
  references_kw :: "reference list option option"
  mask_kw :: "mask_arg option option"
  other_kw :: "string list"

record step_config =
  cfg_name :: string
  cfg_args :: kwargs

text \<open>
  \<open>import_gapfill_step\<close> is \<open>getattr\<close> on the module \<open>pyplume.gapfilling\<close>: it finds the two
  step classes, and also every other name the module binds.
\<close>

datatype module_attr = ClsInterpolationStep | ClsSmoothnStep | OtherAttr

definition other_module_names :: "string list" where
  "other_module_names =
     [''ABC'', ''abstractmethod'', ''importlib'', ''logging'', ''os'', ''Tuple'', ''matlab'',
      ''np'', ''xr'', ''slice_dataset'', ''SurfaceGrid'', ''utils'', ''thredds_data'', ''logger'',
      ''GapfillStep'', ''get_interped'', ''import_gapfill_step'', ''Gapfiller'',
      ''__name__'', ''__doc__'', ''__file__'', ''__package__'', ''__loader__'', ''__spec__'',
      ''__builtins__'', ''__dict__'', ''__class__'']"

definition import_gapfill_step :: "string \<Rightarrow> error + module_attr" where
  "import_gapfill_step nm =
     (if nm = ''InterpolationStep'' then Inr ClsInterpolationStep
      else if nm = ''SmoothnStep'' then Inr ClsSmoothnStep
      else if nm \<in> set other_module_names then Inr OtherAttr
      else Inl AttributeError)"

text \<open>
  \<open>step_class(**args)\<close>. A keyword the constructor does not have, or a missing one
  without a default, raises \<open>TypeError\<close>. A module name that is not a step class gives no
  step: the call fails, or \<open>add_steps\<close> rejects what it returned.
\<close>

definition construct_step :: "externals \<Rightarrow> module_attr \<Rightarrow> kwargs \<Rightarrow> error + step" where
  "construct_step ext cls a =
     (case cls of
        ClsInterpolationStep \<Rightarrow>
          (case references_kw a of
             Some r \<Rightarrow>
               if mask_kw a = None \<and> other_kw a = [] then Inr (InterpolationStep (InterpolationStep_init r))
               else Inl TypeError
           | None \<Rightarrow> Inl TypeError)
      | ClsSmoothnStep \<Rightarrow>
          if references_kw a = None \<and> other_kw a = []
          then and_then (SmoothnStep_init ext (case mask_kw a of None \<Rightarrow> None | Some m \<Rightarrow> m))
                 (\<lambda>m. Inr (SmoothnStep m))
          else Inl TypeError
      | OtherAttr \<Rightarrow> Inl TypeError)"

fun load_from_config :: "externals \<Rightarrow> step_config list \<Rightarrow> error + step list" where
  "load_from_config ext [] = Inr []"
| "load_from_config ext (c # rest) =
     and_then (import_gapfill_step (cfg_name c)) (\<lambda>step_class.
     and_then (construct_step ext step_class (cfg_args c)) (\<lambda>st.
     and_then (load_from_config ext rest) (\<lambda>steps. Inr (st # steps))))"

text \<open>\<open>Gapfiller.execute\<close> on the steps a gapfiller holds.\<close>

definition Gapfiller_execute ::
  "externals \<Rightarrow> (flt \<Rightarrow> bool) \<Rightarrow> (flt ndarray \<Rightarrow> bool array2) \<Rightarrow> step list \<Rightarrow> Dataset
     \<Rightarrow> error + Dataset" where
  "Gapfiller_execute ext p generate_mask_no_data steps target =
     execute (map (step_process ext p generate_mask_no_data) steps) target"

section \<open>Example grids\<close>

text \<open>
  Modelled from the spec: a grid over the given axes whose field has the same value
  everywhere, with the lookup contract of the spec's \<open>value_at\<close>: a query outside the span
  of an axis fails with \<open>OutOfDomain\<close>. The time axis of the flat field set counts from the
  first time instant.
\<close>

definition in_span :: "real list \<Rightarrow> real \<Rightarrow> bool" where
  "in_span xs x = (xs \<noteq> [] \<and> hd xs \<le> x \<and> x \<le> last xs)"

definition uniform_grid :: "real list \<Rightarrow> real list \<Rightarrow> real list \<Rightarrow> flt \<times> flt \<Rightarrow> SurfaceGrid" where
  "uniform_grid tms las los uv =
     \<lparr>ds = \<lparr>ds_coords = [(''time'', tms), (''lat'', las), (''lon'', los)], data_vars = [],
              ds_attrs = []\<rparr>,
      get_coords = (tms, las, los), lats = las, lons = los,
      grid_time = map (\<lambda>t. t - hd tms) tms,
      get_fs_vector = (\<lambda>t lat lon.
        if in_span (map (\<lambda>t. t - hd tms) tms) t \<and> in_span las lat \<and> in_span los lon
        then Inr uv else Inl OutOfDomain),
      get_closest_current = (\<lambda>t lat lon.
        if t < length tms \<and> in_span las lat \<and> in_span los lon then Inr uv
        else Inl OutOfDomain)\<rparr>"

text \<open>
  External collaborators for the examples: the wrapped target grid is given, nothing
  can be loaded, and the smoothing engine returns a fixed value in every cell.
\<close>

definition fixed_externals :: "SurfaceGrid \<Rightarrow> flt \<Rightarrow> externals" where
  "fixed_externals g x =
     \<lparr>load_source = (\<lambda>s. Inl ExternalFailure),
      slice_dataset = (\<lambda>d tr yr xr. Inl ExternalFailure),
      SurfaceGrid_init = (\<lambda>d. Inr g),
      from_url_or_path = (\<lambda>s. Inl ExternalFailure),
      smoothn = (\<lambda>a b. Inr ((fst a, map (\<lambda>c. x) (snd a)), (fst b, map (\<lambda>c. x) (snd b))))\<rparr>"

text \<open>
  The spec's example: a target of two time steps over a 2 by 2 grid, with
  \<open>U = V = [[NaN, 0.01], [0, 0]]\<close> at each time step.
\<close>

definition example_target :: SurfaceGrid where
  "example_target = uniform_grid [0, 1] [0, 1] [0, 1] (NaN, NaN)"

definition example_u :: "flt ndarray" where
  "example_u =
     \<lparr>shp = (2, 2, 2),
      vals = [NaN, Val (1 / 100), Val 0, Val 0, NaN, Val (1 / 100), Val 0, Val 0]\<rparr>"

definition example_ref :: SurfaceGrid where
  "example_ref = uniform_grid [0, 1] [0, 1] [0, 1] (Val (1 / 5), Val (1 / 10))"

definition example_filled :: "flt \<Rightarrow> flt ndarray" where
  "example_filled x = \<lparr>shp = (2, 2, 2), vals = [x, Val (1 / 100), x, x, x, Val (1 / 100), x, x]\<rparr>"

text \<open>
  The invalidity rule as the specification words it, on both components of a cell, for
  comparison with the mask the code computes.
\<close>

definition spec_invalid :: "flt \<Rightarrow> flt \<Rightarrow> bool" where
  "spec_invalid u v = (isnan u \<or> isnan v \<or> num_eq0 (num_add (num_abs u) (num_abs v)))"

definition point_grid :: "flt \<times> flt \<Rightarrow> SurfaceGrid" where
  "point_grid uv = uniform_grid [0] [0] [0] uv"

definition point_array :: "'a \<Rightarrow> 'a ndarray" where
  "point_array x = \<lparr>shp = (1, 1, 1), vals = [x]\<rparr>"

text \<open>A reference that covers only half of the example target's longitude range.\<close>

definition narrow_ref :: SurfaceGrid where
  "narrow_ref = uniform_grid [0, 1] [0, 1] [0, 1 / 2] (Val (1 / 5), Val (1 / 10))"

text \<open>A reference whose U component is a number and whose V component is NaN.\<close>

definition half_nan_ref :: SurfaceGrid where
  "half_nan_ref = uniform_grid [0, 1] [0, 1] [0, 1] (Val (1 / 2), NaN)"

text \<open>
  A target of three time steps at one point, invalid at the last one, and a reference
  over the same time span with only its two end instants.
\<close>

definition three_step_target :: SurfaceGrid where
  "three_step_target = uniform_grid [0, 1, 2] [0] [0] (NaN, NaN)"

definition three_step_u :: "flt ndarray" where
  "three_step_u = \<lparr>shp = (3, 1, 1), vals = [Val 1, Val 1, NaN]\<rparr>"

definition coarse_ref :: SurfaceGrid where
  "coarse_ref = uniform_grid [0, 2] [0] [0] (Val (1 / 5), Val (1 / 10))"

text \<open>
  A mask grid over the example target's axes whose U variable is NaN at the first cell
  at both time steps, and a reading of the no-data mask off it: a cell is no-data when
  U is NaN there at every time step.
\<close>

definition example_mask_u :: DataArray where
  "example_mask_u =
     \<lparr>da_values = \<lparr>shp = (2, 2, 2),
                     vals = [NaN, Val 1, Val 1, Val 1, NaN, Val 1, Val 1, Val 1]\<rparr>,
      da_dims = [''time'', ''lat'', ''lon''], da_attrs = []\<rparr>"

definition example_mask :: SurfaceGrid where
  "example_mask =
     (uniform_grid [0, 1] [0, 1] [0, 1] (NaN, NaN))
       \<lparr>ds := \<lparr>ds_coords = [(''time'', [0, 1]), (''lat'', [0, 1]), (''lon'', [0, 1])],
                data_vars = [(''U'', example_mask_u)], ds_attrs = []\<rparr>\<rparr>"

definition nan_at_all_times :: "flt ndarray \<Rightarrow> bool array2" where
  "nan_at_all_times a =
     (case shp a of (nt, ny, nx) \<Rightarrow>
        ((ny, nx),
         map (\<lambda>c. list_all (\<lambda>t. isnan (vals a ! (t * (ny * nx) + c))) [0..<nt]) [0..<ny * nx]))"

text \<open>Arrays of the example's shape: one value everywhere, and the same under the mask.\<close>

definition const_array :: "flt \<Rightarrow> flt ndarray" where
  "const_array x = \<lparr>shp = (2, 2, 2), vals = [x, x, x, x, x, x, x, x]\<rparr>"

definition masked_array :: "flt \<Rightarrow> flt ndarray" where
  "masked_array x = \<lparr>shp = (2, 2, 2), vals = [NaN, x, x, x, NaN, x, x, x]\<rparr>"

text \<open>
  A dataset over the example's axes with U, V and one more variable, and the target
  grid that wraps it.
\<close>

definition example_dataset :: Dataset where
  "example_dataset =
     \<lparr>ds_coords = [(''time'', [0, 1]), (''lat'', [0, 1]), (''lon'', [0, 1])],
      data_vars =
        [(''U'', \<lparr>da_values = example_u, da_dims = [''time'', ''lat'', ''lon''],
                  da_attrs = [(''units'', ''m/s'')]\<rparr>),
         (''quality'', \<lparr>da_values = const_array (Val 1), da_dims = [''time'', ''lat'', ''lon''],
                        da_attrs = []\<rparr>),
         (''V'', \<lparr>da_values = example_u, da_dims = [''time'', ''lat'', ''lon''],
                  da_attrs = [(''units'', ''m/s'')]\<rparr>)],
      ds_attrs = [(''title'', ''example'')]\<rparr>"

definition dataset_target :: SurfaceGrid where
  "dataset_target = example_target\<lparr>ds := example_dataset\<rparr>"

text \<open>
  Configurations: a step name the module does not bind, and a smoothing step followed
  by an interpolation step whose only reference is of an unrecognized kind.
\<close>

definition unknown_config :: "step_config list" where
  "unknown_config =
     [\<lparr>cfg_name = ''KrigingStep'',
       cfg_args = \<lparr>references_kw = None, mask_kw = None, other_kw = []\<rparr>\<rparr>]"

definition bad_reference_config :: "step_config list" where
  "bad_reference_config =
     [\<lparr>cfg_name = ''SmoothnStep'',
       cfg_args = \<lparr>references_kw = None, mask_kw = Some (Some (MaskGrid example_mask)),
                    other_kw = []\<rparr>\<rparr>,
      \<lparr>cfg_name = ''InterpolationStep'',
       cfg_args = \<lparr>references_kw = Some (Some [RefOther]), mask_kw = None, other_kw = []\<rparr>\<rparr>]"

section \<open>Properties\<close>

lemma and_then_Inl [simp]: "and_then (Inl e) f = Inl e"
  by (simp add: and_then_def)

lemma and_then_Inr [simp]: "and_then (Inr x) f = f x"
  by (simp add: and_then_def)

lemma and_then_eq_Inr:
  "and_then m f = Inr y \<longleftrightarrow> (\<exists>x. m = Inr x \<and> f x = Inr y)"
  by (cases m) simp_all

subsection \<open>Index arrays\<close>

lemma ravel_unravel_same:
  assumes "ravel s (unravel s k) = Inr k'"
  shows "k' = k"
proof -
  obtain nt ny nx where s: "s = (nt, ny, nx)" by (cases s) auto
  from assms have nx: "0 < nx"
    and k': "k' = (k div (ny * nx) * ny + (k div nx) mod ny) * nx + k mod nx"
    by (auto simp: s ravel_def unravel_def split: if_splits)
  have "k div (ny * nx) = (k div nx) div ny"
    by (simp add: div_mult2_eq mult.commute)
  then have "k div (ny * nx) * ny + (k div nx) mod ny = k div nx"
    by simp
  with k' show ?thesis by simp
qed

lemma ravel_all_unravel:
  "ravel_all s (map (unravel s) ks) = Inr ks' \<Longrightarrow> ks' = ks"
proof (induction ks arbitrary: ks')
  case Nil
  then show ?case by simp
next
  case (Cons k ks)
  then show ?case
    by (auto simp: and_then_eq_Inr dest: ravel_unravel_same)
qed

lemma np_where_zip:
  "np_where m = (ts, ys, xs) \<Longrightarrow> zip ts (zip ys xs) = map (unravel (shp m)) (marked m)"
  by (auto simp: np_where_def zip_map_map zip_same_conv_map)

lemma np_where_length:
  "np_where m = (ts, ys, xs) \<Longrightarrow> length ts = length (marked m)"
  by (auto simp: np_where_def)

lemma index_put_where:
  assumes "index_put a (np_where m) arr = Inr a'" and "shp a = shp m"
  shows "a' = a\<lparr>vals := put_all (vals a) (zip (marked m) arr)\<rparr> \<and> length arr = length (marked m)"
proof -
  obtain ts ys xs where w: "np_where m = (ts, ys, xs)" by (cases "np_where m") auto
  from assms(1) have len: "length arr = length ts"
    and "\<exists>ks. ravel_all (shp a) (zip ts (zip ys xs)) = Inr ks
            \<and> a' = a\<lparr>vals := put_all (vals a) (zip ks arr)\<rparr>"
    by (auto simp: index_put_def w and_then_eq_Inr split: if_splits)
  then obtain ks where ks: "ravel_all (shp m) (map (unravel (shp m)) (marked m)) = Inr ks"
    and a': "a' = a\<lparr>vals := put_all (vals a) (zip ks arr)\<rparr>"
    using np_where_zip [OF w] assms(2) by auto
  from ravel_all_unravel [OF ks] a' len np_where_length [OF w] show ?thesis by simp
qed

lemma length_put_all: "length (put_all xs ps) = length xs"
  by (induction xs ps rule: put_all.induct) simp_all

lemma put_all_other: "k \<notin> fst ` set ps \<Longrightarrow> put_all xs ps ! k = xs ! k"
  by (induction xs ps rule: put_all.induct) auto

lemma marked_iff: "k \<in> set (marked m) \<longleftrightarrow> k < length (vals m) \<and> vals m ! k"
  by (auto simp: marked_def)

lemma put_all_unmarked:
  "\<not> vals m ! k \<Longrightarrow> put_all xs (zip (marked m) arr) ! k = xs ! k"
  by (rule put_all_other) (auto dest!: set_zip_leftD simp: marked_iff)

subsection \<open>One pass over the invalid cells\<close>

lemma interp_pass_u:
  assumes "interp_pass p target ref (u, v, m) = Inr (u', v', m')" and "shp m = shp u"
  shows "\<exists>arr_u arr_v.
           interp_cells target ref (np_where m) [0..<np_sum m] = Inr (arr_u, arr_v)
         \<and> u' = u\<lparr>vals := put_all (vals u) (zip (marked m) arr_u)\<rparr>
         \<and> length arr_u = length (marked m)
         \<and> index_put v (np_where m) arr_v = Inr v'
         \<and> m' = generate_mask_invalid p u'"
proof -
  from assms(1) obtain arr_u arr_v u0 where
    c: "interp_cells target ref (np_where m) [0..<np_sum m] = Inr (arr_u, arr_v)"
    and pu: "index_put u (np_where m) arr_u = Inr u0"
    and pv: "index_put v (np_where m) arr_v = Inr v'"
    and eq: "u' = u0" "m' = generate_mask_invalid p u0"
    by (auto simp: interp_pass_def Let_def and_then_eq_Inr)
  from index_put_where [OF pu assms(2) [symmetric]] c pv eq show ?thesis by auto
qed

lemma interp_pass_v:
  assumes "interp_pass p target ref (u, v, m) = Inr (u', v', m')"
    and "shp m = shp u" and "shp v = shp u"
  shows "\<exists>arr_v. v' = v\<lparr>vals := put_all (vals v) (zip (marked m) arr_v)\<rparr>"
proof -
  from interp_pass_u [OF assms(1,2)] obtain arr_v
    where "index_put v (np_where m) arr_v = Inr v'" by blast
  from index_put_where [OF this] assms(2,3) show ?thesis by auto
qed

lemma shp_generate_mask_invalid [simp]: "shp (generate_mask_invalid p a) = shp a"
  by (simp add: generate_mask_invalid_def)

lemma vals_generate_mask_invalid [simp]: "vals (generate_mask_invalid p a) = map p (vals a)"
  by (simp add: generate_mask_invalid_def)

lemma interp_pass_frame:
  assumes "interp_pass p target ref (u, v, generate_mask_invalid p u) = Inr (u', v', m')"
    and "shp v = shp u"
  shows "shp u' = shp u \<and> shp v' = shp v \<and> length (vals u') = length (vals u)
       \<and> m' = generate_mask_invalid p u'
       \<and> (\<forall>k < length (vals u). \<not> p (vals u ! k) \<longrightarrow>
            vals u' ! k = vals u ! k \<and> vals v' ! k = vals v ! k)"
proof -
  let ?m = "generate_mask_invalid p u"
  from interp_pass_u [OF assms(1)] obtain arr_u
    where u': "u' = u\<lparr>vals := put_all (vals u) (zip (marked ?m) arr_u)\<rparr>"
      and m': "m' = generate_mask_invalid p u'" by auto
  from interp_pass_v [OF assms(1)] assms(2) obtain arr_v
    where v': "v' = v\<lparr>vals := put_all (vals v) (zip (marked ?m) arr_v)\<rparr>" by auto
  have "vals u' ! k = vals u ! k \<and> vals v' ! k = vals v ! k"
    if "k < length (vals u)" "\<not> p (vals u ! k)" for k
  proof -
    from that have "\<not> vals ?m ! k" by simp
    then show ?thesis by (simp add: u' v' put_all_unmarked)
  qed
  then show ?thesis by (simp add: u' v' m' length_put_all)
qed

lemma count_marked_mono:
  "list_all2 (\<lambda>x' x. p x' \<longrightarrow> p x) xs' xs \<Longrightarrow>
     length (filter (\<lambda>b. b) (map p xs')) \<le> length (filter (\<lambda>b. b) (map p xs))"
  by (induction rule: list_all2_induct) auto

lemma interp_pass_count:
  assumes "interp_pass p target ref (u, v, generate_mask_invalid p u) = Inr (u', v', m')"
  shows "m' = generate_mask_invalid p u' \<and> np_sum m' \<le> np_sum (generate_mask_invalid p u)"
proof -
  let ?m = "generate_mask_invalid p u"
  from interp_pass_u [OF assms] obtain arr_u
    where u': "u' = u\<lparr>vals := put_all (vals u) (zip (marked ?m) arr_u)\<rparr>"
      and m': "m' = generate_mask_invalid p u'" by auto
  have "list_all2 (\<lambda>x' x. p x' \<longrightarrow> p x) (vals u') (vals u)"
    unfolding list_all2_conv_all_nth
  proof (intro conjI allI impI)
    show "length (vals u') = length (vals u)" by (simp add: u' length_put_all)
  next
    fix k assume "k < length (vals u')" and px: "p (vals u' ! k)"
    show "p (vals u ! k)"
    proof (rule ccontr)
      assume np: "\<not> p (vals u ! k)"
      with \<open>k < length (vals u')\<close> have "\<not> vals ?m ! k" by (simp add: u' length_put_all)
      then have "vals u' ! k = vals u ! k" by (simp add: u' put_all_unmarked)
      with px np show False by simp
    qed
  qed
  from count_marked_mono [OF this] m' show ?thesis by (simp add: np_sum_def)
qed

subsection \<open>The loop over the references\<close>

lemma interp_refs_frame:
  assumes "interp_refs p target refs (u, v, generate_mask_invalid p u) = Inr ((u', v', m'), logged)"
    and "shp v = shp u" and "k < length (vals u)" and "\<not> p (vals u ! k)"
  shows "vals u' ! k = vals u ! k \<and> vals v' ! k = vals v ! k"
  using assms
proof (induction refs arbitrary: u v logged)
  case Nil
  then show ?case by simp
next
  case (Cons ref rest)
  from Cons.prems(1) obtain u1 v1 m1 logged1 where
    p1: "interp_pass p target ref (u, v, generate_mask_invalid p u) = Inr (u1, v1, m1)"
    and r1: "interp_refs p target rest (u1, v1, m1) = Inr ((u', v', m'), logged1)"
    by (auto simp: and_then_eq_Inr)
  from interp_pass_frame [OF p1 Cons.prems(2)] Cons.prems(3,4)
  have f: "shp u1 = shp u" "shp v1 = shp v" "length (vals u1) = length (vals u)"
    "m1 = generate_mask_invalid p u1"
    "vals u1 ! k = vals u ! k" "vals v1 ! k = vals v ! k"
    by auto
  from r1 f(4) have "interp_refs p target rest (u1, v1, generate_mask_invalid p u1)
      = Inr ((u', v', m'), logged1)" by simp
  from Cons.IH [OF this] f Cons.prems show ?case by simp
qed

lemma interp_refs_counts:
  assumes "interp_refs p target refs (u, v, generate_mask_invalid p u) = Inr (s, logged)"
  shows "sorted_wrt (\<lambda>a b. b \<le> a) (np_sum (generate_mask_invalid p u) # logged)"
  using assms
proof (induction refs arbitrary: u v logged)
  case Nil
  then show ?case by simp
next
  case (Cons ref rest)
  from Cons.prems obtain u1 v1 m1 logged1 where
    p1: "interp_pass p target ref (u, v, generate_mask_invalid p u) = Inr (u1, v1, m1)"
    and r1: "interp_refs p target rest (u1, v1, m1) = Inr (s, logged1)"
    and lg: "logged = np_sum m1 # logged1"
    by (auto simp: and_then_eq_Inr)
  from interp_pass_count [OF p1]
  have m1: "m1 = generate_mask_invalid p u1" and le: "np_sum m1 \<le> np_sum (generate_mask_invalid p u)"
    by auto
  from r1 m1 have "interp_refs p target rest (u1, v1, generate_mask_invalid p u1) = Inr (s, logged1)"
    by simp
  from Cons.IH [OF this] have "sorted_wrt (\<lambda>a b. b \<le> a) (np_sum m1 # logged1)"
    by (simp add: m1)
  with le show ?case by (auto simp: lg)
qed

lemma interp_refs_u_only:
  assumes "interp_refs p target refs (u, v, generate_mask_invalid p u) = Inr ((u1, v1, m1), log1)"
    and "interp_refs p target refs (u, w, generate_mask_invalid p u) = Inr ((u2, w2, m2), log2)"
  shows "m1 = generate_mask_invalid p u1 \<and> u2 = u1 \<and> m2 = m1 \<and> log2 = log1"
  using assms
proof (induction refs arbitrary: u v w log1 log2)
  case Nil
  then show ?case by auto
next
  case (Cons ref rest)
  let ?m = "generate_mask_invalid p u"
  from Cons.prems(1) obtain a1 b1 c1 l1 where
    p1: "interp_pass p target ref (u, v, ?m) = Inr (a1, b1, c1)"
    and r1: "interp_refs p target rest (a1, b1, c1) = Inr ((u1, v1, m1), l1)"
    and lg1: "log1 = np_sum c1 # l1"
    by (auto simp: and_then_eq_Inr)
  from Cons.prems(2) obtain a2 b2 c2 l2 where
    p2: "interp_pass p target ref (u, w, ?m) = Inr (a2, b2, c2)"
    and r2: "interp_refs p target rest (a2, b2, c2) = Inr ((u2, w2, m2), l2)"
    and lg2: "log2 = np_sum c2 # l2"
    by (auto simp: and_then_eq_Inr)
  from interp_pass_u [OF p1] interp_pass_u [OF p2]
  have e: "a2 = a1" "c1 = generate_mask_invalid p a1" "c2 = c1"
    by auto
  from Cons.IH [of a1 b1 l1 b2 l2] r1 r2 e lg1 lg2 show ?case by simp
qed

subsection \<open>The example, evaluated\<close>

lemma example_marked:
  "marked (generate_mask_invalid cell_invalid example_u) = [0, 2, 3, 4, 6, 7]"
  by (simp add: marked_def cell_invalid_def example_u_def upt_conv_Cons)

lemma example_where:
  "np_where (generate_mask_invalid cell_invalid example_u)
     = ([0, 0, 0, 1, 1, 1], [0, 1, 1, 0, 1, 1], [0, 0, 1, 0, 0, 1])"
  by (simp add: np_where_def example_marked) (simp add: unravel_def example_u_def)

lemma example_sum: "np_sum (generate_mask_invalid cell_invalid example_u) = 6"
  by (simp add: np_sum_def cell_invalid_def example_u_def)

lemma example_get_interped:
  "\<forall>i \<in> set [0..<6]. get_interped i example_target example_ref
     (np_where (generate_mask_invalid cell_invalid example_u)) = Inr (Val (1 / 5), Val (1 / 10))"
  by (simp add: upt_conv_Cons example_where get_interped_def example_target_def example_ref_def
      uniform_grid_def np_diff0_def nth_err_def in_span_def)

lemma interp_cells_const:
  "\<forall>i \<in> set is. get_interped i target ref pos = Inr (a, b) \<Longrightarrow>
     interp_cells target ref pos is = Inr (replicate (length is) a, replicate (length is) b)"
  by (induction "is") simp_all

lemma example_cells:
  "interp_cells example_target example_ref
     (np_where (generate_mask_invalid cell_invalid example_u)) [0..<6]
     = Inr (replicate 6 (Val (1 / 5)), replicate 6 (Val (1 / 10)))"
  using interp_cells_const [OF example_get_interped] by simp

lemma example_put:
  "index_put example_u (np_where (generate_mask_invalid cell_invalid example_u)) (replicate 6 x)
     = Inr (example_filled x)"
  by (simp add: example_where index_put_def)
    (simp add: example_u_def ravel_def example_filled_def numeral_eq_Suc)

lemma example_pass:
  "interp_pass cell_invalid example_target example_ref
     (example_u, example_u, generate_mask_invalid cell_invalid example_u)
   = Inr (example_filled (Val (1 / 5)), example_filled (Val (1 / 10)),
          generate_mask_invalid cell_invalid (example_filled (Val (1 / 5))))"
  by (simp add: interp_pass_def Let_def example_sum example_cells example_put)

lemma example_sum_filled:
  "np_sum (generate_mask_invalid cell_invalid (example_filled (Val (1 / 5)))) = 0"
  by (simp add: np_sum_def cell_invalid_def example_filled_def)

lemma example_validation: "do_validation example_target [example_ref] = Inr ()"
  by (simp add: do_validation_def example_target_def example_ref_def uniform_grid_def
      first_err_def last_err_def ref_inbounds_def)

lemma example_refs:
  "interp_refs cell_invalid example_target [example_ref]
     (example_u, example_u, generate_mask_invalid cell_invalid example_u)
   = Inr ((example_filled (Val (1 / 5)), example_filled (Val (1 / 10)),
           generate_mask_invalid cell_invalid (example_filled (Val (1 / 5)))), [0])"
  by (simp add: example_pass example_sum_filled)

lemma example_process:
  "process_logged (fixed_externals example_target NaN) cell_invalid [RefGrid example_ref]
     example_u example_u (ds example_target)
   = Inr ((example_filled (Val (1 / 5)), example_filled (Val (1 / 10))), [6, 0])"
  by (simp add: process_logged_def fixed_externals_def example_validation Let_def example_pass
      example_sum_filled example_sum)

subsection \<open>The invalid count never increases\<close>

text \<open>
  C3. For every target and every sequence of references, the log of invalid-cell counts
  of a run of \<open>InterpolationStep.process\<close> (the count on the target data, then the count
  after each reference) never increases from one entry to the next.
\<close>

theorem invalid_count_never_increases:
  assumes "process_logged ext p references u v target_ds = Inr (r, logged)"
  shows "sorted_wrt (\<lambda>a b. b \<le> a) logged"
proof -
  from assms obtain target loaded s l where
    "interp_refs p target loaded (u, v, generate_mask_invalid p u) = Inr (s, l)"
    and "logged = np_sum (generate_mask_invalid p u) # l"
    by (auto simp: process_logged_def Let_def and_then_eq_Inr)
  with interp_refs_counts show ?thesis by blast
qed

theorem invalid_count_never_increases_witness:
  "process_logged (fixed_externals example_target NaN) cell_invalid [RefGrid example_ref]
     example_u example_u (ds example_target)
   = Inr ((example_filled (Val (1 / 5)), example_filled (Val (1 / 10))), [6, 0])
   \<and> sorted_wrt (\<lambda>a b. b \<le> a) [6, 0 :: nat]"
  using invalid_count_never_increases [OF example_process] example_process by simp

subsection \<open>Valid cells are never written\<close>

text \<open>
  C4. A cell that the mask holds valid at the start of a reference pass (valid in the
  input, or filled by an earlier reference) is written neither by that reference nor by
  a later one: after the loop its U and V values are the ones it had at the start of the
  pass. The loop is taken from any pass onwards: its state is the pair of arrays filled
  so far, of one shape, with the mask of the U array.
\<close>

theorem valid_cells_never_written:
  assumes "interp_refs p target refs (u, v, generate_mask_invalid p u) = Inr ((u', v', m'), logged)"
    and "shp v = shp u" and "k < length (vals u)"
    and "\<not> vals (generate_mask_invalid p u) ! k"
  shows "vals u' ! k = vals u ! k \<and> vals v' ! k = vals v ! k"
proof -
  from assms(3,4) have "\<not> p (vals u ! k)" by simp
  from interp_refs_frame [OF assms(1,2,3) this] show ?thesis .
qed

theorem valid_cells_never_written_witness:
  "interp_refs cell_invalid example_target [example_ref]
     (example_u, example_u, generate_mask_invalid cell_invalid example_u)
   = Inr ((example_filled (Val (1 / 5)), example_filled (Val (1 / 10)),
           generate_mask_invalid cell_invalid (example_filled (Val (1 / 5)))), [0])
   \<and> shp example_u = shp example_u \<and> 1 < length (vals example_u)
   \<and> \<not> vals (generate_mask_invalid cell_invalid example_u) ! 1
   \<and> vals (example_filled (Val (1 / 5))) ! 1 = vals example_u ! 1
   \<and> vals (example_filled (Val (1 / 10))) ! 1 = vals example_u ! 1"
proof -
  have h3: "1 < length (vals example_u)" by (simp add: example_u_def)
  have h4: "\<not> vals (generate_mask_invalid cell_invalid example_u) ! 1"
    by (simp add: example_u_def cell_invalid_def)
  from valid_cells_never_written [OF example_refs refl h3 h4] example_refs h3 h4
  show ?thesis by simp
qed

subsection \<open>The mask is taken from U alone\<close>

text \<open>
  C2 (as amended). The invalid mask of \<open>InterpolationStep.process\<close> is computed from the U
  array alone: the count logged first is that of the mask of \<open>u\<close>, and two runs on the
  same U array with different V arrays return the same U array and log the same counts.
\<close>

theorem invalid_mask_from_u_alone:
  assumes "process_logged ext p references u v target_ds = Inr ((u1, v1), log1)"
    and "process_logged ext p references u w target_ds = Inr ((u2, w2), log2)"
  shows "hd log1 = np_sum (generate_mask_invalid p u) \<and> u2 = u1 \<and> log2 = log1"
proof -
  from assms(1) obtain target loaded a1 b1 m1 l1 where
    t: "SurfaceGrid_init ext target_ds = Inr target"
    and l: "load_references ext target references = Inr loaded"
    and r1: "interp_refs p target loaded (u, v, generate_mask_invalid p u) = Inr ((a1, b1, m1), l1)"
    and e1: "u1 = a1" "log1 = np_sum (generate_mask_invalid p u) # l1"
    by (auto simp: process_logged_def Let_def and_then_eq_Inr)
  from assms(2) t l obtain a2 b2 m2 l2 where
    r2: "interp_refs p target loaded (u, w, generate_mask_invalid p u) = Inr ((a2, b2, m2), l2)"
    and e2: "u2 = a2" "log2 = np_sum (generate_mask_invalid p u) # l2"
    by (auto simp: process_logged_def Let_def and_then_eq_Inr)
  from interp_refs_u_only [OF r1 r2] e1 e2 show ?thesis by simp
qed

lemma example_put_filled:
  "index_put (example_filled y) (np_where (generate_mask_invalid cell_invalid example_u))
     (replicate 6 x) = Inr (example_filled x)"
  by (simp add: example_where index_put_def)
    (simp add: ravel_def example_filled_def numeral_eq_Suc)

lemma example_process_other_v:
  "process_logged (fixed_externals example_target NaN) cell_invalid [RefGrid example_ref]
     example_u (example_filled (Val 1)) (ds example_target)
   = Inr ((example_filled (Val (1 / 5)), example_filled (Val (1 / 10))), [6, 0])"
  by (simp add: process_logged_def fixed_externals_def example_validation Let_def interp_pass_def
      example_sum example_cells example_put example_put_filled example_sum_filled)

theorem invalid_mask_from_u_alone_witness:
  "process_logged (fixed_externals example_target NaN) cell_invalid [RefGrid example_ref]
     example_u example_u (ds example_target)
   = Inr ((example_filled (Val (1 / 5)), example_filled (Val (1 / 10))), [6, 0])
   \<and> process_logged (fixed_externals example_target NaN) cell_invalid [RefGrid example_ref]
     example_u (example_filled (Val 1)) (ds example_target)
   = Inr ((example_filled (Val (1 / 5)), example_filled (Val (1 / 10))), [6, 0])
   \<and> hd [6, 0 :: nat] = np_sum (generate_mask_invalid cell_invalid example_u)"
  using invalid_mask_from_u_alone [OF example_process example_process_other_v]
    example_process example_process_other_v
  by simp

lemma point_validation:
  "do_validation (point_grid a) [point_grid b] = Inr ()"
  by (simp add: do_validation_def point_grid_def uniform_grid_def first_err_def last_err_def
      ref_inbounds_def)

theorem invalid_mask_rule_counterexample:
  "spec_invalid (Val 1) NaN
   \<and> process_logged (fixed_externals (point_grid (NaN, NaN)) NaN) cell_invalid
       [RefGrid (point_grid (Val (1 / 5), Val (1 / 10)))]
       (point_array (Val 1)) (point_array NaN) (ds (point_grid (NaN, NaN)))
     = Inr ((point_array (Val 1), point_array NaN), [0, 0])"
  by (simp add: spec_invalid_def process_logged_def fixed_externals_def point_validation Let_def
      interp_pass_def np_sum_def point_array_def cell_invalid_def np_where_def marked_def
      index_put_def)

subsection \<open>Coverage validation\<close>

lemma ref_inbounds_error: "ref_inbounds g a b ts = Inl e \<Longrightarrow> e = IndexError"
  by (auto simp: ref_inbounds_def first_err_def last_err_def and_then_def
      split: prod.splits list.splits if_splits sum.splits)

lemma validate_refs_rejects:
  assumes "g \<in> set loaded" and "ref_inbounds g a b ts = Inr False"
  shows "validate_refs loaded a b ts = Inl ValueError \<or> validate_refs loaded a b ts = Inl IndexError"
  using assms
proof (induction loaded)
  case Nil
  then show ?case by simp
next
  case (Cons r rest)
  show ?case
  proof (cases "ref_inbounds r a b ts")
    case (Inl e)
    with ref_inbounds_error [OF Inl] show ?thesis by simp
  next
    case (Inr ok)
    with Cons show ?thesis by (cases ok) auto
  qed
qed

text \<open>
  C1 (as amended). A loaded reference that fails the coverage check of \<open>do_validation\<close>
  is not skipped: \<open>InterpolationStep.process\<close> raises as a whole and returns no arrays,
  whatever the other references are. It raises \<open>ValueError\<close>, or \<open>IndexError\<close> when the
  check met an empty axis first.
\<close>

theorem insufficient_coverage_aborts:
  assumes "SurfaceGrid_init ext target_ds = Inr target"
    and "load_references ext target references = Inr loaded"
    and "get_coords target = (targ_times, targ_lats, targ_lons)"
    and "g \<in> set loaded"
    and "ref_inbounds g (hd targ_lats, hd targ_lons) (last targ_lats, last targ_lons) targ_times
           = Inr False"
  shows "InterpolationStep_process ext p references u v target_ds = Inl ValueError
       \<or> InterpolationStep_process ext p references u v target_ds = Inl IndexError"
proof (cases "targ_lats = [] \<or> targ_lons = []")
  case True
  then have "do_validation target loaded = Inl IndexError"
    by (auto simp: do_validation_def assms(3) first_err_def last_err_def split: list.splits)
  then show ?thesis
    by (simp add: InterpolationStep_process_def process_logged_def assms(1,2))
next
  case False
  then have "do_validation target loaded
      = validate_refs loaded (hd targ_lats, hd targ_lons) (last targ_lats, last targ_lons) targ_times"
    by (auto simp: do_validation_def assms(3) first_err_def last_err_def split: list.splits)
  with validate_refs_rejects [OF assms(4,5)]
  show ?thesis
    by (auto simp: InterpolationStep_process_def process_logged_def assms(1,2))
qed

lemma narrow_inbounds: "ref_inbounds narrow_ref (0, 0) (1, 1) [0, 1] = Inr False"
  by (simp add: ref_inbounds_def narrow_ref_def uniform_grid_def first_err_def last_err_def)

theorem insufficient_coverage_aborts_witness:
  "ref_inbounds narrow_ref (0, 0) (1, 1) [0, 1] = Inr False
   \<and> (InterpolationStep_process (fixed_externals example_target NaN) cell_invalid
         [RefGrid example_ref, RefGrid narrow_ref] example_u example_u (ds example_target)
         = Inl ValueError
      \<or> InterpolationStep_process (fixed_externals example_target NaN) cell_invalid
         [RefGrid example_ref, RefGrid narrow_ref] example_u example_u (ds example_target)
         = Inl IndexError)"
  using insufficient_coverage_aborts [of "fixed_externals example_target NaN" "ds example_target"
      example_target "[RefGrid example_ref, RefGrid narrow_ref]" "[example_ref, narrow_ref]"
      "[0, 1]" "[0, 1]" "[0, 1]" narrow_ref cell_invalid example_u example_u]
    narrow_inbounds
  by (simp add: fixed_externals_def example_target_def uniform_grid_def)

theorem coverage_skip_counterexample:
  "InterpolationStep_process (fixed_externals example_target NaN) cell_invalid
     [RefGrid narrow_ref, RefGrid example_ref] example_u example_u (ds example_target)
   = Inl ValueError"
  by (simp add: InterpolationStep_process_def process_logged_def fixed_externals_def
      do_validation_def example_target_def uniform_grid_def first_err_def last_err_def
      narrow_inbounds)

subsection \<open>No references\<close>

text \<open>
  C10. With \<open>references\<close> equal to \<open>None\<close> or to the empty list, \<open>InterpolationStep.process\<close>
  returns arrays equal to \<open>u\<close> and \<open>v\<close>, for every target grid that has at least one
  latitude and one longitude (\<open>do_validation\<close> reads the first and last of each).
\<close>

theorem no_references_identity:
  assumes "SurfaceGrid_init ext target_ds = Inr target"
    and "get_coords target = (targ_times, targ_lats, targ_lons)"
    and "targ_lats \<noteq> []" and "targ_lons \<noteq> []"
    and "references = None \<or> references = Some []"
  shows "InterpolationStep_process ext p (InterpolationStep_init references) u v target_ds
           = Inr (u, v)"
proof -
  from assms(5) have r: "InterpolationStep_init references = []"
    by (auto simp: InterpolationStep_init_def)
  from assms(2,3,4) have "do_validation target [] = Inr ()"
    by (auto simp: do_validation_def first_err_def last_err_def split: list.splits)
  then show ?thesis
    by (simp add: r InterpolationStep_process_def process_logged_def assms(1))
qed

theorem no_references_identity_witness:
  "[0, 1 :: real] \<noteq> [] \<and> ((None :: reference list option) = None \<or> None = Some [])
   \<and> InterpolationStep_process (fixed_externals example_target NaN) cell_invalid
       (InterpolationStep_init None) example_u (example_filled NaN) (ds example_target)
     = Inr (example_u, example_filled NaN)"
  using no_references_identity [of "fixed_externals example_target NaN" "ds example_target"
      example_target "[0, 1]" "[0, 1]" "[0, 1]" None cell_invalid example_u "example_filled NaN"]
  by (simp add: fixed_externals_def example_target_def uniform_grid_def)

subsection \<open>Rejected fills\<close>

text \<open>
  C5 (as amended). When every index and lookup of \<open>get_interped\<close> succeeds, the fill is
  rejected, and \<open>(NaN, NaN)\<close> returned, exactly when the first component of the
  reference's closest current is NaN or \<open>|u| + |v|\<close> of the looked-up vector is zero;
  otherwise the looked-up pair is returned as it is, a NaN component included.
\<close>

theorem get_interped_rejection:
  assumes "np_diff0 (grid_time ref) = Inr time_diff"
    and "nth_err ts i = Inr t"
    and "nth_err ys i = Inr yi" and "nth_err (lats target) yi = Inr lat"
    and "nth_err xs i = Inr xi" and "nth_err (lons target) xi = Inr lon"
    and "get_fs_vector ref (real t * time_diff) lat lon = Inr (current_u, current_v)"
    and "get_closest_current ref t lat lon = Inr closest"
  shows "get_interped i target ref (ts, ys, xs)
       = Inr (if isnan (fst closest) \<or> num_eq0 (num_add (num_abs current_u) (num_abs current_v))
              then (NaN, NaN) else (current_u, current_v))"
  using assms by (simp add: get_interped_def Let_def)

lemma half_nan_lookups:
  "get_fs_vector half_nan_ref (real 0 * 1) 0 0 = Inr (Val (1 / 2), NaN)"
  "get_closest_current half_nan_ref 0 0 0 = Inr (Val (1 / 2), NaN)"
  by (simp_all add: half_nan_ref_def uniform_grid_def in_span_def)

theorem get_interped_rejection_witness:
  "get_fs_vector half_nan_ref (real 0 * 1) 0 0 = Inr (Val (1 / 2), NaN)
   \<and> get_closest_current half_nan_ref 0 0 0 = Inr (Val (1 / 2), NaN)
   \<and> get_interped 0 example_target half_nan_ref ([0], [0], [0]) = Inr (Val (1 / 2), NaN)"
  using get_interped_rejection [of half_nan_ref 1 "[0]" 0 0 "[0]" 0 example_target 0 "[0]" 0 0
      "Val (1 / 2)" NaN "(Val (1 / 2), NaN)"] half_nan_lookups
  by (simp add: nth_err_def np_diff0_def half_nan_ref_def example_target_def uniform_grid_def)

theorem nan_reference_value_counterexample:
  "spec_invalid (Val (1 / 2)) NaN
   \<and> get_fs_vector half_nan_ref 0 0 0 = Inr (Val (1 / 2), NaN)
   \<and> get_interped 0 example_target half_nan_ref ([0], [0], [0]) = Inr (Val (1 / 2), NaN)"
  by (simp add: spec_invalid_def get_interped_def nth_err_def np_diff0_def half_nan_ref_def
      example_target_def uniform_grid_def in_span_def)

subsection \<open>Failing lookups\<close>

lemma interp_cells_first_error:
  assumes "\<forall>j \<in> set pre. \<exists>r. get_interped j target ref pos = Inr r"
    and "get_interped i target ref pos = Inl e"
  shows "interp_cells target ref pos (pre @ i # post) = Inl e"
  using assms by (induction pre) (auto simp: and_then_def split: sum.splits)

lemma interp_cells_upt_error:
  assumes "i < n" and "\<forall>j < i. \<exists>r. get_interped j target ref pos = Inr r"
    and "get_interped i target ref pos = Inl e"
  shows "interp_cells target ref pos [0..<n] = Inl e"
proof -
  from assms(1) have "[0..<n] = [0..<i] @ [i..<n]"
    using upt_add_eq_append [of 0 i "n - i"] by simp
  with assms(1) have "[0..<n] = [0..<i] @ i # [Suc i..<n]"
    by (simp add: upt_conv_Cons)
  with interp_cells_first_error [of "[0..<i]" target ref pos i e "[Suc i..<n]"] assms(2,3)
  show ?thesis by simp
qed

text \<open>
  C6 (as amended). A lookup that fails with \<open>OutOfDomain\<close> is not recovered as "no data":
  \<open>get_interped\<close> has no handler, so at the first invalid position whose lookup fails the
  loop over the references stops with that error and no arrays are returned.
\<close>

theorem lookup_error_escapes:
  assumes "np_where m = (ts, ys, xs)" and "i < np_sum m"
    and "\<forall>j < i. \<exists>r. get_interped j target ref (np_where m) = Inr r"
    and "np_diff0 (grid_time ref) = Inr time_diff"
    and "nth_err ts i = Inr t"
    and "nth_err ys i = Inr yi" and "nth_err (lats target) yi = Inr lat"
    and "nth_err xs i = Inr xi" and "nth_err (lons target) xi = Inr lon"
    and "get_fs_vector ref (real t * time_diff) lat lon = Inl OutOfDomain"
  shows "interp_refs p target (ref # rest) (u, v, m) = Inl OutOfDomain"
proof -
  from assms(1,4-10) have "get_interped i target ref (np_where m) = Inl OutOfDomain"
    by (simp add: get_interped_def)
  from interp_cells_upt_error [OF assms(2,3) this]
  show ?thesis by (simp add: interp_pass_def Let_def)
qed

lemma three_step_where:
  "np_where (generate_mask_invalid cell_invalid three_step_u) = ([2], [0], [0])"
  by (simp add: np_where_def marked_def cell_invalid_def three_step_u_def upt_conv_Cons unravel_def)

lemma three_step_sum: "np_sum (generate_mask_invalid cell_invalid three_step_u) = 1"
  by (simp add: np_sum_def cell_invalid_def three_step_u_def)

lemma coarse_lookup: "get_fs_vector coarse_ref (real 2 * 2) 0 0 = Inl OutOfDomain"
  by (simp add: coarse_ref_def uniform_grid_def in_span_def)

theorem lookup_error_escapes_witness:
  "get_fs_vector coarse_ref (real 2 * 2) 0 0 = Inl OutOfDomain
   \<and> interp_refs cell_invalid three_step_target [coarse_ref]
       (three_step_u, three_step_u, generate_mask_invalid cell_invalid three_step_u)
     = Inl OutOfDomain"
  using lookup_error_escapes [of "generate_mask_invalid cell_invalid three_step_u" "[2]" "[0]" "[0]"
      0 three_step_target coarse_ref 2 2 0 0 0 0 cell_invalid "[]" three_step_u three_step_u]
    coarse_lookup three_step_where three_step_sum
  by (simp add: nth_err_def np_diff0_def coarse_ref_def three_step_target_def uniform_grid_def)

lemma coarse_validation: "do_validation three_step_target [coarse_ref] = Inr ()"
  by (simp add: do_validation_def three_step_target_def coarse_ref_def uniform_grid_def
      first_err_def last_err_def ref_inbounds_def)

theorem out_of_domain_counterexample:
  "InterpolationStep_process (fixed_externals three_step_target NaN) cell_invalid
     [RefGrid coarse_ref] three_step_u three_step_u (ds three_step_target)
   = Inl OutOfDomain"
  by (simp add: InterpolationStep_process_def process_logged_def fixed_externals_def
      coarse_validation Let_def interp_pass_def three_step_where three_step_sum)
    (simp add: get_interped_def nth_err_def np_diff0_def coarse_ref_def three_step_target_def
      uniform_grid_def in_span_def)

subsection \<open>The mask of the smoothing step\<close>

lemma concat_replicate_nth:
  "t < n \<Longrightarrow> c < length bs \<Longrightarrow> concat (replicate n bs) ! (t * length bs + c) = bs ! c"
proof (induction n arbitrary: t)
  case 0
  then show ?case by simp
next
  case (Suc n)
  show ?case
  proof (cases t)
    case 0
    with Suc.prems show ?thesis by (simp add: nth_append)
  next
    case (Suc t')
    with Suc.prems Suc.IH [of t'] show ?thesis by (simp add: nth_append)
  qed
qed

lemma length_concat_replicate: "length (concat (replicate n bs)) = n * length bs"
  by (induction n) simp_all

lemma mask_put_marked:
  assumes "mask_put a m x = Inr a'" and "k < length (vals m)" and "vals m ! k"
  shows "vals a' ! k = x"
  using assms by (auto simp: mask_put_def split: if_splits)

lemma mask_put_shp: "mask_put a m x = Inr a' \<Longrightarrow> shp a' = shp m"
  by (auto simp: mask_put_def split: if_splits)

text \<open>
  C8. When \<open>SmoothnStep\<close> holds a mask and \<open>process\<close> returns, every cell that the no-data
  mask read off the mask grid marks is NaN in both output arrays at every time step,
  whatever the smoothing engine returned.
\<close>

theorem mask_enforced_after_smoothing:
  assumes "SmoothnStep_process ext generate_mask_no_data (Some msk) u v target_ds = Inr (ou, ov)"
    and "ds_var (ds msk) ''U'' = Inr mask_u"
    and "generate_mask_no_data (da_values mask_u) = ((ny, nx), no_data)"
    and "length no_data = ny * nx"
    and "t < fst (shp ou)" and "c < ny * nx" and "no_data ! c"
  shows "vals ou ! (t * (ny * nx) + c) = NaN \<and> vals ov ! (t * (ny * nx) + c) = NaN"
proof -
  from assms(1,2,3) obtain su sv n where
    pu: "mask_put su (np_tile ((ny, nx), no_data) n) NaN = Inr ou"
    and pv: "mask_put sv (np_tile ((ny, nx), no_data) n) NaN = Inr ov"
    by (auto simp: SmoothnStep_process_def Let_def and_then_eq_Inr)
  let ?m = "np_tile ((ny, nx), no_data) n"
  from mask_put_shp [OF pu] assms(5) have t: "t < n" by (simp add: np_tile_def)
  have len: "length (vals ?m) = n * (ny * nx)"
    by (simp add: np_tile_def length_concat_replicate assms(4))
  from t assms(6) have "t * (ny * nx) + c < t * (ny * nx) + ny * nx" by simp
  also from t have "\<dots> \<le> n * (ny * nx)"
    by (metis Suc_leI mult_Suc mult_le_mono1 add.commute)
  finally have k: "t * (ny * nx) + c < length (vals ?m)" by (simp add: len)
  from concat_replicate_nth [OF t, of c no_data] assms(4,6,7)
  have mk: "vals ?m ! (t * (ny * nx) + c)" by (simp add: np_tile_def)
  from mask_put_marked [OF pu k mk] mask_put_marked [OF pv k mk] show ?thesis by simp
qed

lemma example_mask_validation:
  "SmoothnStep_do_validation (Some example_mask) example_target = Inr ()"
  by (simp add: SmoothnStep_do_validation_def example_mask_def example_target_def uniform_grid_def
      first_err_def last_err_def)

lemma example_slab0: "slab example_u 0 = Inr ((2, 2), [NaN, Val (1 / 100), Val 0, Val 0])"
  by (simp add: slab_def example_u_def)

lemma example_slab1: "slab example_u (Suc 0) = Inr ((2, 2), [NaN, Val (1 / 100), Val 0, Val 0])"
  by (simp add: slab_def example_u_def)

lemma broadcast_const:
  "broadcast2 (2, 2) ((2, 2), [x, x, x, x]) = Inr [x, x, x, x]"
  by (simp add: broadcast2_def upt_conv_Cons)

lemma example_set_slab0:
  "set_slab example_u 0 ((2, 2), [x, x, x, x])
     = Inr \<lparr>shp = (2, 2, 2), vals = [x, x, x, x, NaN, Val (1 / 100), Val 0, Val 0]\<rparr>"
  by (simp add: set_slab_def example_u_def broadcast_const)

lemma example_set_slab1:
  "set_slab \<lparr>shp = (2, 2, 2), vals = [x, x, x, x, NaN, Val (1 / 100), Val 0, Val 0]\<rparr> (Suc 0)
     ((2, 2), [x, x, x, x]) = Inr (const_array x)"
  by (simp add: set_slab_def broadcast_const const_array_def)

lemma example_smooth:
  "smooth_fields (fixed_externals example_target x) example_u example_u [0..<2]
     (example_u, example_u) = Inr (const_array x, const_array x)"
  by (simp add: upt_conv_Cons example_slab0 example_slab1 fixed_externals_def
      example_set_slab0 example_set_slab1)

lemma example_no_data:
  "nan_at_all_times (da_values example_mask_u) = ((2, 2), [True, False, False, False])"
  by (simp add: nan_at_all_times_def example_mask_u_def upt_conv_Cons)

lemma example_mask_put:
  "mask_put (const_array x) (np_tile ((2, 2), [True, False, False, False]) 2) NaN
     = Inr (masked_array x)"
  by (simp add: mask_put_def const_array_def np_tile_def masked_array_def numeral_eq_Suc)

lemma example_smoothn_process:
  "SmoothnStep_process (fixed_externals example_target (Val 1)) nan_at_all_times
     (Some example_mask) example_u example_u (ds example_target)
   = Inr (masked_array (Val 1), masked_array (Val 1))"
proof -
  have s: "fst (shp example_u) = 2" by (simp add: example_u_def)
  have v: "ds_var (ds example_mask) ''U'' = Inr example_mask_u"
    by (simp add: ds_var_def example_mask_def)
  have n: "ds_coord_size (ds example_target) ''time'' = Inr 2"
    by (simp add: ds_coord_size_def example_target_def uniform_grid_def)
  have i: "SurfaceGrid_init (fixed_externals example_target (Val 1)) (ds example_target)
      = Inr example_target"
    by (simp add: fixed_externals_def)
  show ?thesis
    by (simp add: SmoothnStep_process_def i example_mask_validation s example_smooth v n
        example_no_data example_mask_put)
qed

lemma example_mask_var: "ds_var (ds example_mask) ''U'' = Inr example_mask_u"
  by (simp add: ds_var_def example_mask_def)

theorem mask_enforced_after_smoothing_witness:
  "SmoothnStep_process (fixed_externals example_target (Val 1)) nan_at_all_times
     (Some example_mask) example_u example_u (ds example_target)
   = Inr (masked_array (Val 1), masked_array (Val 1))
   \<and> nan_at_all_times (da_values example_mask_u) = ((2, 2), [True, False, False, False])
   \<and> 1 < fst (shp (masked_array (Val 1))) \<and> [True, False, False, False] ! 0
   \<and> vals (masked_array (Val 1)) ! (1 * (2 * 2) + 0) = NaN"
  using mask_enforced_after_smoothing [OF example_smoothn_process example_mask_var
      example_no_data, of 1 0] example_smoothn_process example_no_data
  by (simp add: masked_array_def)

subsection \<open>The dataset returned by the gapfiller\<close>

lemma map_of_filter_keys:
  "k \<notin> set names \<Longrightarrow> map_of (filter (\<lambda>(k', x). k' \<notin> set names) xs) k = map_of xs k"
  by (induction xs) auto

lemma executed_vars:
  "data_vars (assign ''V'' dv (assign ''U'' du (drop_vars [''U'', ''V''] d)))
     = filter (\<lambda>(k, x). k \<notin> set [''U'', ''V'']) (data_vars d) @ [(''U'', du), (''V'', dv)]"
proof -
  have u: "''U'' \<notin> fst ` set (data_vars (drop_vars [''U'', ''V''] d))"
    unfolding drop_vars_def by auto
  then have 1: "data_vars (assign ''U'' du (drop_vars [''U'', ''V''] d))
      = data_vars (drop_vars [''U'', ''V''] d) @ [(''U'', du)]"
    by (simp add: assign_def)
  have "''V'' \<notin> fst ` set (data_vars (drop_vars [''U'', ''V''] d) @ [(''U'', du)])"
    unfolding drop_vars_def by auto
  with 1 show ?thesis by (simp add: assign_def drop_vars_def)
qed

lemma executed_frame:
  "ds_coords (assign k x d) = ds_coords d" "ds_attrs (assign k x d) = ds_attrs d"
  "ds_coords (drop_vars names d) = ds_coords d" "ds_attrs (drop_vars names d) = ds_attrs d"
  by (simp_all add: assign_def drop_vars_def)

lemma ds_var_mem: "ds_var d k = Inr x \<Longrightarrow> (k, x) \<in> set (data_vars d)"
  by (auto simp: ds_var_def split: option.splits dest: map_of_SomeD)

lemma executed_sizes:
  assumes "distinct (map fst vars)" and "(a, tu) \<in> set vars" and "(b, tv) \<in> set vars"
    and "f du = f tu" and "f dv = f tv"
  shows "set (concat (map (\<lambda>(k, x). f x)
            (filter (\<lambda>(k, x). k \<notin> set [a, b]) vars @ [(a, du), (b, dv)])))
       = set (concat (map (\<lambda>(k, x). f x) vars))"
proof -
  let ?keep = "{p \<in> set vars. fst p \<noteq> a \<and> fst p \<noteq> b}"
  have only: "x = tu" if "(a, x) \<in> set vars" for x
    using that assms(1,2) by (meson eq_key_imp_eq_value)
  have only': "x = tv" if "(b, x) \<in> set vars" for x
    using that assms(1,3) by (meson eq_key_imp_eq_value)
  have split: "set vars = ?keep \<union> {(a, tu), (b, tv)}"
  proof (rule set_eqI)
    fix p :: "'a \<times> 'b"
    obtain k x where p: "p = (k, x)" by (cases p)
    show "p \<in> set vars \<longleftrightarrow> p \<in> ?keep \<union> {(a, tu), (b, tv)}"
      using only [of x] only' [of x] assms(2,3) unfolding p by auto
  qed
  have keep: "set (filter (\<lambda>(k, x). k \<notin> set [a, b]) vars) = ?keep"
    by auto
  have "set (concat (map (\<lambda>(k, x). f x)
            (filter (\<lambda>(k, x). k \<notin> set [a, b]) vars @ [(a, du), (b, dv)])))
      = (\<Union>p \<in> ?keep. set (f (snd p))) \<union> set (f tu) \<union> set (f tv)"
    unfolding set_concat set_map set_append keep
    by (simp add: assms(4,5) case_prod_unfold) blast
  also have "\<dots> = (\<Union>p \<in> ?keep \<union> {(a, tu), (b, tv)}. set (f (snd p)))"
    by (simp add: Un_assoc) blast
  also have "\<dots> = (\<Union>p \<in> set vars. set (f (snd p)))"
    using split by simp
  also have "\<dots> = set (concat (map (\<lambda>(k, x). f x) vars))"
    by (simp add: case_prod_unfold)
  finally show ?thesis .
qed

lemma map_of_dropped:
  "k \<in> set names \<Longrightarrow> map_of (filter (\<lambda>(k', x). k' \<notin> set names) xs) k = None"
  by (induction xs) auto

lemma executed_lookup:
  "ds_var (assign ''V'' dv (assign ''U'' du (drop_vars [''U'', ''V''] d))) k
     = (if k = ''U'' then Inr du else if k = ''V'' then Inr dv else ds_var d k)"
proof -
  let ?kept = "filter (\<lambda>(k', x). k' \<notin> set [''U'', ''V'']) (data_vars d)"
  have u: "map_of ?kept ''U'' = None" and v: "map_of ?kept ''V'' = None"
    by (rule map_of_dropped, simp)+
  have o: "map_of ?kept k = map_of (data_vars d) k" if "k \<noteq> ''U''" "k \<noteq> ''V''"
    using that by (intro map_of_filter_keys) simp
  show ?thesis
    unfolding ds_var_def executed_vars map_of_append
    using u v o by (auto simp: map_add_def split: option.splits)
qed

lemma da_sizes_conv:
  "conv_to_dataarray arr darr_ref = Inr x \<Longrightarrow> da_sizes x = da_sizes darr_ref \<and> x = darr_ref\<lparr>da_values := arr\<rparr>"
  by (auto simp: conv_to_dataarray_def da_sizes_def split: if_splits)

text \<open>
  C7. For a dataset that has the variables U and V (under unique variable names) and
  steps that return arrays of the shape they were given, \<open>Gapfiller.execute\<close> returns a
  dataset with the coordinate arrays, the attributes, the dimension sizes and every
  variable other than U and V of the input; U and V keep their dimensions and metadata
  and carry the new values.
\<close>

theorem execute_preserves_envelope:
  assumes "ds_var target ''U'' = Inr target_u" and "ds_var target ''V'' = Inr target_v"
    and "distinct (map fst (data_vars target))"
    and "run_steps steps target (da_values target_u, da_values target_v) = Inr (u, v)"
    and "shp u = shp (da_values target_u)" and "shp v = shp (da_values target_v)"
  shows "\<exists>out. execute steps target = Inr out
       \<and> ds_coords out = ds_coords target \<and> ds_attrs out = ds_attrs target
       \<and> ds_sizes out = ds_sizes target
       \<and> (\<forall>k. k \<noteq> ''U'' \<and> k \<noteq> ''V'' \<longrightarrow> ds_var out k = ds_var target k)
       \<and> ds_var out ''U'' = Inr (target_u\<lparr>da_values := u\<rparr>)
       \<and> ds_var out ''V'' = Inr (target_v\<lparr>da_values := v\<rparr>)"
proof -
  let ?du = "target_u\<lparr>da_values := u\<rparr>" and ?dv = "target_v\<lparr>da_values := v\<rparr>"
  let ?out = "assign ''V'' ?dv (assign ''U'' ?du (drop_vars [''U'', ''V''] target))"
  from assms(5,6)
  have c: "conv_to_dataarray u target_u = Inr ?du" "conv_to_dataarray v target_v = Inr ?dv"
    by (simp_all add: conv_to_dataarray_def)
  have e: "execute steps target = Inr ?out"
    by (simp add: execute_def assms(1,2,4) c)
  have z: "ds_sizes ?out = ds_sizes target"
    unfolding ds_sizes_def executed_vars executed_frame
    using executed_sizes [OF assms(3) ds_var_mem [OF assms(1)] ds_var_mem [OF assms(2)],
        of da_sizes ?du ?dv] da_sizes_conv [OF c(1)] da_sizes_conv [OF c(2)]
    by simp
  have "ds_var ?out ''U'' = Inr ?du" "ds_var ?out ''V'' = Inr ?dv"
    "\<forall>k. k \<noteq> ''U'' \<and> k \<noteq> ''V'' \<longrightarrow> ds_var ?out k = ds_var target k"
    by (simp_all add: executed_lookup)
  with e z show ?thesis by (auto simp: executed_frame)
qed

lemma dataset_smoothn_process:
  "SmoothnStep_process (fixed_externals dataset_target (Val 1)) nan_at_all_times
     (Some example_mask) example_u example_u d
   = Inr (masked_array (Val 1), masked_array (Val 1))"
proof -
  have s: "fst (shp example_u) = 2" by (simp add: example_u_def)
  have n: "ds_coord_size (ds dataset_target) ''time'' = Inr 2"
    by (simp add: ds_coord_size_def dataset_target_def example_dataset_def)
  have i: "SurfaceGrid_init (fixed_externals dataset_target (Val 1)) d = Inr dataset_target"
    by (simp add: fixed_externals_def)
  have val: "SmoothnStep_do_validation (Some example_mask) dataset_target = Inr ()"
    by (simp add: SmoothnStep_do_validation_def example_mask_def dataset_target_def
        example_target_def uniform_grid_def first_err_def last_err_def)
  have sm: "smooth_fields (fixed_externals dataset_target (Val 1)) example_u example_u [0..<2]
     (example_u, example_u) = Inr (const_array (Val 1), const_array (Val 1))"
    by (simp add: upt_conv_Cons example_slab0 example_slab1 fixed_externals_def
        example_set_slab0 example_set_slab1)
  show ?thesis
    by (simp add: SmoothnStep_process_def i val s sm example_mask_var n
        example_no_data example_mask_put)
qed

lemma dataset_vars:
  "ds_var example_dataset ''U'' = Inr \<lparr>da_values = example_u, da_dims = [''time'', ''lat'', ''lon''],
                  da_attrs = [(''units'', ''m/s'')]\<rparr>"
  "ds_var example_dataset ''V'' = Inr \<lparr>da_values = example_u, da_dims = [''time'', ''lat'', ''lon''],
                  da_attrs = [(''units'', ''m/s'')]\<rparr>"
  "distinct (map fst (data_vars example_dataset))"
  by (simp_all add: ds_var_def example_dataset_def)

theorem execute_preserves_envelope_witness:
  "run_steps [step_process (fixed_externals dataset_target (Val 1)) cell_invalid nan_at_all_times
       (SmoothnStep (Some example_mask))] example_dataset (example_u, example_u)
     = Inr (masked_array (Val 1), masked_array (Val 1))
   \<and> (\<exists>out. execute [step_process (fixed_externals dataset_target (Val 1)) cell_invalid
           nan_at_all_times (SmoothnStep (Some example_mask))] example_dataset = Inr out
        \<and> ds_coords out = ds_coords example_dataset \<and> ds_attrs out = ds_attrs example_dataset
        \<and> ds_sizes out = ds_sizes example_dataset
        \<and> ds_var out ''quality'' = ds_var example_dataset ''quality'')"
proof -
  let ?steps = "[step_process (fixed_externals dataset_target (Val 1)) cell_invalid nan_at_all_times
       (SmoothnStep (Some example_mask))]"
  have r: "run_steps ?steps example_dataset
      (da_values \<lparr>da_values = example_u, da_dims = [''time'', ''lat'', ''lon''],
                  da_attrs = [(''units'', ''m/s'')]\<rparr>,
       da_values \<lparr>da_values = example_u, da_dims = [''time'', ''lat'', ''lon''],
                  da_attrs = [(''units'', ''m/s'')]\<rparr>)
     = Inr (masked_array (Val 1), masked_array (Val 1))"
    by (simp add: step_process_def dataset_smoothn_process)
  have s: "shp (masked_array (Val 1)) = shp (da_values \<lparr>da_values = example_u,
      da_dims = [''time'', ''lat'', ''lon''], da_attrs = [(''units'', ''m/s'')]\<rparr>)"
    by (simp add: masked_array_def example_u_def)
  from execute_preserves_envelope [OF dataset_vars r s s] r show ?thesis
    by auto
qed

subsection \<open>Configuration errors\<close>

lemma load_from_config_unknown:
  assumes "c \<in> set cfgs" and "import_gapfill_step (cfg_name c) = Inl e"
  shows "\<exists>e'. load_from_config ext cfgs = Inl e'"
  using assms
proof (induction cfgs)
  case Nil
  then show ?case by simp
next
  case (Cons a rest)
  then show ?case
    by (cases "import_gapfill_step (cfg_name a)";
        cases "construct_step ext (projr (import_gapfill_step (cfg_name a))) (cfg_args a)")
      (auto simp: and_then_def split: sum.splits)
qed

lemma load_references_other:
  assumes "\<forall>r \<in> set pre. \<exists>g. r = RefGrid g"
  shows "load_references ext target (pre @ RefOther # post) = Inl TypeError"
  using assms by (induction pre) auto

text \<open>
  C9 (as amended). An unregistered step name is a construction-time error:
  \<open>load_from_config\<close> fails and builds no gapfiller. An unrecognized reference is not: the
  constructor of \<open>InterpolationStep\<close> accepts any list of references, and the \<open>TypeError\<close>
  is raised when the step's \<open>process\<close> runs, while it resolves its references and
  before it computes a mask.
\<close>

theorem configuration_errors:
  assumes "c \<in> set cfgs" and "import_gapfill_step (cfg_name c) = Inl AttributeError"
    and "SurfaceGrid_init ext target_ds = Inr target"
    and "\<forall>r \<in> set pre. \<exists>g. r = RefGrid g"
  shows "(\<exists>e. load_from_config ext cfgs = Inl e)
       \<and> construct_step ext ClsInterpolationStep
           \<lparr>references_kw = Some (Some (pre @ RefOther # post)), mask_kw = None, other_kw = []\<rparr>
         = Inr (InterpolationStep (pre @ RefOther # post))
       \<and> step_process ext p generate_mask_no_data (InterpolationStep (pre @ RefOther # post))
           u v target_ds = Inl TypeError"
proof -
  from load_references_other [OF assms(4)]
  have "step_process ext p generate_mask_no_data (InterpolationStep (pre @ RefOther # post))
           u v target_ds = Inl TypeError"
    by (simp add: step_process_def InterpolationStep_process_def process_logged_def assms(3))
  with load_from_config_unknown [OF assms(1,2)] show ?thesis
    by (simp add: construct_step_def InterpolationStep_init_def)
qed

lemma unknown_name: "import_gapfill_step ''KrigingStep'' = Inl AttributeError"
  by (simp add: import_gapfill_step_def other_module_names_def)

theorem configuration_errors_witness:
  "import_gapfill_step ''KrigingStep'' = Inl AttributeError
   \<and> (\<exists>e. load_from_config (fixed_externals dataset_target (Val 1)) unknown_config = Inl e)
   \<and> step_process (fixed_externals dataset_target (Val 1)) cell_invalid nan_at_all_times
       (InterpolationStep ([RefGrid example_ref] @ RefOther # [])) example_u example_u
       example_dataset = Inl TypeError"
  using configuration_errors [of "hd unknown_config" unknown_config
      "fixed_externals dataset_target (Val 1)" example_dataset dataset_target
      "[RefGrid example_ref]" "[]" cell_invalid nan_at_all_times example_u example_u]
    unknown_name
  by (simp add: unknown_config_def fixed_externals_def)

lemma bad_reference_loaded:
  "load_from_config (fixed_externals dataset_target (Val 1)) bad_reference_config
     = Inr [SmoothnStep (Some example_mask), InterpolationStep [RefOther]]"
  by (simp add: bad_reference_config_def import_gapfill_step_def construct_step_def
      SmoothnStep_init_def InterpolationStep_init_def)

theorem reference_type_counterexample:
  "load_from_config (fixed_externals dataset_target (Val 1)) bad_reference_config
     = Inr [SmoothnStep (Some example_mask), InterpolationStep [RefOther]]
   \<and> step_process (fixed_externals dataset_target (Val 1)) cell_invalid nan_at_all_times
       (SmoothnStep (Some example_mask)) example_u example_u example_dataset
     = Inr (masked_array (Val 1), masked_array (Val 1))
   \<and> Gapfiller_execute (fixed_externals dataset_target (Val 1)) cell_invalid nan_at_all_times
       [SmoothnStep (Some example_mask), InterpolationStep [RefOther]] example_dataset
     = Inl TypeError"
proof -
  have i: "step_process (fixed_externals dataset_target (Val 1)) cell_invalid nan_at_all_times
       (InterpolationStep [RefOther]) a b example_dataset = Inl TypeError" for a b
    by (simp add: step_process_def InterpolationStep_process_def process_logged_def
        fixed_externals_def)
  have s: "step_process (fixed_externals dataset_target (Val 1)) cell_invalid nan_at_all_times
       (SmoothnStep (Some example_mask)) example_u example_u example_dataset
     = Inr (masked_array (Val 1), masked_array (Val 1))"
    by (simp add: step_process_def dataset_smoothn_process)
  have "Gapfiller_execute (fixed_externals dataset_target (Val 1)) cell_invalid nan_at_all_times
       [SmoothnStep (Some example_mask), InterpolationStep [RefOther]] example_dataset
     = Inl TypeError"
    by (simp add: Gapfiller_execute_def execute_def dataset_vars s i)
  with bad_reference_loaded s show ?thesis by simp
qed

end
